theory Spec2Isabelle
  imports Complex_Main
begin

section \<open>JavaScript values used by the GitHub service\<close>

text \<open>
  Strings are lists of characters; a character stands for a UTF-16 code unit below 256
  (ASCII and Latin-1), which covers every string the properties below are about
  (URLs, base64 text, file names with ASCII suffixes, status lines).
  A thrown exception is a value of \<open>js_error\<close>; a function of the source that can throw
  returns \<open>js_error + 'a\<close>, with \<open>Inl\<close> for the exception.
\<close>

datatype js_error =
  Error string
  | TypeError string
  | SyntaxError string
  | InvalidCharacterError string

text \<open>
  A \<open>Response\<close> of the fetch API: the status line and the outcome of
  \<open>await response.json()\<close> (which rejects when the body is not JSON) and of
  \<open>await response.text()\<close>. The type parameter is the shape of the JSON payload.
\<close>

record 'a response =
  status :: nat
  statusText :: string
  json :: "js_error + 'a"
  text_body :: string

definition ok :: "'a response \<Rightarrow> bool" where
  "ok response = (200 \<le> status response \<and> status response \<le> 299)"

type_synonym 'a fetch_outcome = "js_error + 'a response"

text \<open>Decimal rendering of a number inside a template literal.\<close>

definition digit_char :: "nat \<Rightarrow> char" where
  "digit_char d = ''0123456789'' ! d"

fun number_toString :: "nat \<Rightarrow> string" where
  "number_toString n =
     (if n < 10 then [digit_char n]
      else number_toString (n div 10) @ [digit_char (n mod 10)])"

declare number_toString.simps [simp del]

text \<open>Truthiness of a value of type \<open>string | null\<close>: \<open>null\<close> and \<open>''\<close> are falsy.\<close>

fun truthy :: "string option \<Rightarrow> bool" where
  "truthy None = False"
| "truthy (Some s) = (s \<noteq> [])"

section \<open>Token store\<close>

text \<open>
  The state the service reads and writes: the build-time environment value
  \<open>process.env.REACT_APP_GITHUB_TOKEN\<close>, the \<open>localStorage\<close> item \<open>github_token\<close>,
  the answers the user will give to the next calls of \<open>prompt\<close> (\<open>None\<close> is Cancel),
  and the log of the URLs requested so far.
\<close>

record browser =
  env_token :: "string option"
  github_token :: "string option"
  prompts :: "string option list"
  requests :: "string list"

definition envToken :: "browser \<Rightarrow> string option" where
  "envToken st = (if truthy (env_token st) then env_token st else None)"

definition getGitHubToken :: "browser \<Rightarrow> string option" where
  "getGitHubToken st =
     (if truthy (envToken st) then envToken st else github_token st)"

definition setGitHubToken :: "string \<Rightarrow> browser \<Rightarrow> browser" where
  "setGitHubToken token st = st\<lparr>github_token := Some token\<rparr>"

definition removeItem_github_token :: "browser \<Rightarrow> browser" where
  "removeItem_github_token st = st\<lparr>github_token := None\<rparr>"

definition prompt :: "browser \<Rightarrow> string option \<times> browser" where
  "prompt st =
     (case prompts st of
        [] \<Rightarrow> (None, st)
      | answer # later \<Rightarrow> (answer, st\<lparr>prompts := later\<rparr>))"

definition createHeaders :: "browser \<Rightarrow> (string \<times> string) list" where
  "createHeaders st =
     (let token = getGitHubToken st in
      if truthy token
      then [(''Authorization'', ''Bearer '' @ (case token of Some t \<Rightarrow> t | None \<Rightarrow> [])),
            (''Accept'', ''application/vnd.github.v3+json'')]
      else [(''Accept'', ''application/vnd.github.v3+json'')])"

section \<open>The shared API error handler\<close>

definition api_error_message :: "'a response \<Rightarrow> string" where
  "api_error_message response =
     ''GitHub API error: '' @ number_toString (status response) @ '' '' @ statusText response"

text \<open>
  \<open>handleApiError\<close> has return type \<open>void\<close> and may throw: the model returns
  \<open>Inr ()\<close> for a normal return and \<open>Inl e\<close> for \<open>throw e\<close>, with the browser state
  after the call.
\<close>

definition handleApiError :: "'a response \<Rightarrow> browser \<Rightarrow> (js_error + unit) \<times> browser" where
  "handleApiError response st =
     (if status response = 401 \<or> status response = 403 then
        let existingToken = getGitHubToken st;
            st1 = (if truthy existingToken then removeItem_github_token st else st)
        in if truthy (env_token st1) then
             (Inl (Error (api_error_message response)), st1)
           else
             let (token, st2) = prompt st1;
                 st3 = (case token of
                          Some t \<Rightarrow> if t \<noteq> [] then setGitHubToken t st2 else st2
                        | None \<Rightarrow> st2)
             in (Inl (Error (api_error_message response)), st3)
      else (Inl (Error (api_error_message response)), st))"

section \<open>Repository listing\<close>

record repository =
  repo_id :: int
  repo_name :: string
  repo_description :: "string option"
  repo_html_url :: string
  repo_homepage :: "string option"
  repo_language :: "string option"
  repo_topics :: "string list"
  repo_updated_at :: string
  repo_stargazers_count :: int
  repo_forks_count :: int

definition GITHUB_API_BASE :: string where
  "GITHUB_API_BASE = ''https://api.github.com''"

definition log_request :: "string \<Rightarrow> browser \<Rightarrow> browser" where
  "log_request url st = st\<lparr>requests := requests st @ [url]\<rparr>"

definition user_repos_url :: "string \<Rightarrow> string" where
  "user_repos_url username =
     GITHUB_API_BASE @ ''/users/'' @ username @ ''/repos?sort=updated&per_page=100''"

text \<open>
  \<open>fetchUserRepositories\<close> calls itself after the error handler returns. The server is
  given as the script of its outcomes to the successive requests, one per call of
  \<open>fetch\<close>; a request beyond the script fails at the network level.
\<close>

fun fetchUserRepositories ::
  "string \<Rightarrow> repository list fetch_outcome list \<Rightarrow> browser
     \<Rightarrow> (js_error + repository list) \<times> browser" where
  "fetchUserRepositories username [] st =
     (Inl (TypeError ''Failed to fetch''), log_request (user_repos_url username) st)"
| "fetchUserRepositories username (outcome # script) st =
     (let st0 = log_request (user_repos_url username) st in
      case outcome of
        Inl e \<Rightarrow> (Inl e, st0)
      | Inr response \<Rightarrow>
          if \<not> ok response then
            (case handleApiError response st0 of
               (Inl e, st1) \<Rightarrow> (Inl e, st1)
             | (Inr u, st1) \<Rightarrow>
                 if status response = 401 \<or> status response = 403
                 then fetchUserRepositories username script st1
                 else (Inr [], st1))
          else
            (case json response of
               Inl e \<Rightarrow> (Inl e, st0)
             | Inr repos \<Rightarrow> (Inr repos, st0)))"

section \<open>Strings\<close>

text \<open>
  \<open>String.prototype.toLowerCase\<close> on code units below 256: the ASCII capitals and the
  Latin-1 capitals (U+00C0 to U+00DE without the multiplication sign U+00D7) move up
  by 32, every other character stays.
\<close>

definition toLowerCase_char :: "char \<Rightarrow> char" where
  "toLowerCase_char c =
     (let n = (of_char c :: nat) in
      if (65 \<le> n \<and> n \<le> 90) \<or> (192 \<le> n \<and> n \<le> 222 \<and> n \<noteq> 215)
      then char_of (n + 32) else c)"

definition toLowerCase :: "string \<Rightarrow> string" where
  "toLowerCase s = map toLowerCase_char s"

definition startsWith :: "string \<Rightarrow> string \<Rightarrow> bool" where
  "startsWith s p = (take (length p) s = p)"

definition endsWith :: "string \<Rightarrow> string \<Rightarrow> bool" where
  "endsWith s p = (length p \<le> length s \<and> drop (length s - length p) s = p)"

fun includes_str :: "string \<Rightarrow> string \<Rightarrow> bool" where
  "includes_str [] p = (p = [])"
| "includes_str (c # s) p = (startsWith (c # s) p \<or> includes_str s p)"

text \<open>\<open>s.split(sep)\<close> for a one-character separator: never the empty array.\<close>

fun split :: "char \<Rightarrow> string \<Rightarrow> string list" where
  "split sep [] = [[]]"
| "split sep (c # s) =
     (if c = sep then [] # split sep s
      else (case split sep s of
              [] \<Rightarrow> [[c]]
            | p # ps \<Rightarrow> (c # p) # ps))"

text \<open>
  \<open>String.prototype.trim\<close> removes white space and line terminators from both ends;
  below 256 these are TAB, LF, VT, FF, CR, SPACE and NBSP.
\<close>

definition is_js_whitespace :: "char \<Rightarrow> bool" where
  "is_js_whitespace c = ((of_char c :: nat) \<in> {9, 10, 11, 12, 13, 32, 160})"

definition trim :: "string \<Rightarrow> string" where
  "trim s = rev (dropWhile is_js_whitespace (rev (dropWhile is_js_whitespace s)))"

section \<open>Base64: the browser's \<open>atob\<close> and the provider's encoder\<close>

text \<open>
  \<open>atob\<close> is the browser's decoder. It follows the forgiving-base64 decode of the HTML
  standard: ASCII white space is removed; when the length is a multiple of four, one or
  two trailing \<open>=\<close> are removed; a length of 1 modulo 4 or a character outside the
  alphabet is an \<open>InvalidCharacterError\<close>; every four characters (24 bits) give three
  bytes, two or three left-over characters give one or two bytes, their last four or two
  bits being dropped. The result is a binary string: one character per byte.
\<close>

definition is_ascii_whitespace :: "char \<Rightarrow> bool" where
  "is_ascii_whitespace c = ((of_char c :: nat) \<in> {9, 10, 12, 13, 32})"

definition sextet_of :: "char \<Rightarrow> nat option" where
  "sextet_of c =
     (let n = (of_char c :: nat) in
      if 65 \<le> n \<and> n \<le> 90 then Some (n - 65)
      else if 97 \<le> n \<and> n \<le> 122 then Some (n - 71)
      else if 48 \<le> n \<and> n \<le> 57 then Some (n + 4)
      else if n = 43 then Some 62
      else if n = 47 then Some 63
      else None)"

fun decode_sextets :: "nat list \<Rightarrow> string" where
  "decode_sextets (a # b # c # d # rest) =
     char_of (a * 4 + b div 16) # char_of (b mod 16 * 16 + c div 4)
       # char_of (c mod 4 * 64 + d) # decode_sextets rest"
| "decode_sextets [a, b, c] = [char_of (a * 4 + b div 16), char_of (b mod 16 * 16 + c div 4)]"
| "decode_sextets [a, b] = [char_of (a * 4 + b div 16)]"
| "decode_sextets [a] = []"
| "decode_sextets [] = []"

definition strip_padding :: "string \<Rightarrow> string" where
  "strip_padding d =
     (if length d mod 4 = 0 \<and> d \<noteq> [] \<and> last d = CHR ''=''
      then (let d1 = butlast d in
            if d1 \<noteq> [] \<and> last d1 = CHR ''='' then butlast d1 else d1)
      else d)"

definition atob :: "string \<Rightarrow> js_error + string" where
  "atob data =
     (let d = strip_padding (filter (\<lambda>c. \<not> is_ascii_whitespace c) data) in
      if length d mod 4 = 1 then
        Inl (InvalidCharacterError ''The string to be decoded is not correctly encoded.'')
      else
        (case those (map sextet_of d) of
           None \<Rightarrow>
             Inl (InvalidCharacterError ''The string to be decoded is not correctly encoded.'')
         | Some sextets \<Rightarrow> Inr (decode_sextets sextets)))"

text \<open>
  The encoder is the provider's side of the round trip and not part of the repository:
  standard base64 (RFC 4648, section 4) of a byte sequence, three bytes to four
  characters, padded with \<open>=\<close>.
\<close>

definition base64_char :: "nat \<Rightarrow> char" where
  "base64_char i =
     (if i < 26 then char_of (65 + i)
      else if i < 52 then char_of (71 + i)
      else if i < 62 then char_of (i - 4)
      else if i = 62 then CHR ''+''
      else CHR ''/'')"

fun base64_encode :: "string \<Rightarrow> string" where
  "base64_encode (x # y # z # rest) =
     base64_char (of_char x div 4) # base64_char (of_char x mod 4 * 16 + of_char y div 16)
       # base64_char (of_char y mod 16 * 4 + of_char z div 64)
       # base64_char (of_char z mod 64) # base64_encode rest"
| "base64_encode [x, y] =
     [base64_char (of_char x div 4), base64_char (of_char x mod 4 * 16 + of_char y div 16),
      base64_char (of_char y mod 16 * 4), CHR ''='']"
| "base64_encode [x] =
     [base64_char (of_char x div 4), base64_char (of_char x mod 4 * 16), CHR ''='', CHR ''='']"
| "base64_encode [] = []"

text \<open>
  The six-bit groups of the encoding of a byte sequence, before the alphabet and the
  padding are applied.
\<close>

fun sextets_of :: "string \<Rightarrow> nat list" where
  "sextets_of (x # y # z # rest) =
     of_char x div 4 # (of_char x mod 4 * 16 + of_char y div 16)
       # (of_char y mod 16 * 4 + of_char z div 64) # of_char z mod 64 # sextets_of rest"
| "sextets_of [x, y] =
     [of_char x div 4, of_char x mod 4 * 16 + of_char y div 16, of_char y mod 16 * 4]"
| "sextets_of [x] = [of_char x div 4, of_char x mod 4 * 16]"
| "sextets_of [] = []"

section \<open>Directory listings\<close>

datatype item_type = File | Dir | Symlink

record repo_content_item =
  name :: string
  path :: string
  type :: item_type
  size_bytes :: nat
  download_url :: "string option"

text \<open>
  The payload of the contents endpoint, \<open>RepoContentItem[] | RepoContentItem\<close>: an
  array for a directory (\<open>Array.isArray\<close> holds of it), a single object for a file
  addressed directly.
\<close>

datatype 'item contents_payload = Listing "'item list" | Single 'item

definition contents_url :: "string \<Rightarrow> string \<Rightarrow> string \<Rightarrow> string" where
  "contents_url username repoName p =
     GITHUB_API_BASE @ ''/repos/'' @ username @ ''/'' @ repoName @ ''/contents/'' @ p"

text \<open>
  For the functions that request each address once, the provider is a function from the
  address to the outcome of the request.
\<close>

definition fetchRepoContents ::
  "string \<Rightarrow> string \<Rightarrow> string
     \<Rightarrow> (string \<Rightarrow> repo_content_item contents_payload fetch_outcome) \<Rightarrow> browser
     \<Rightarrow> (js_error + repo_content_item list) \<times> browser" where
  "fetchRepoContents username repoName p server st =
     (let st0 = log_request (contents_url username repoName p) st in
      case server (contents_url username repoName p) of
        Inl e \<Rightarrow> (Inl e, st0)
      | Inr response \<Rightarrow>
          if \<not> ok response then
            (case handleApiError response st0 of
               (Inl e, st1) \<Rightarrow> (Inl e, st1)
             | (Inr u, st1) \<Rightarrow> (Inr [], st1))
          else
            (case json response of
               Inl e \<Rightarrow> (Inl e, st0)
             | Inr contents \<Rightarrow>
                 (Inr (case contents of Listing items \<Rightarrow> items | Single item \<Rightarrow> [item]),
                  st0)))"

section \<open>Language detection\<close>

definition file_extension :: "repo_content_item \<Rightarrow> string option" where
  "file_extension file =
     (let parts = split (CHR ''.'') (name file) in
      if length parts > 1 then Some (toLowerCase (last parts)) else None)"

definition fileExtensions :: "repo_content_item list \<Rightarrow> string list" where
  "fileExtensions contents =
     List.map_filter file_extension (filter (\<lambda>item. type item = File) contents)"

definition languageMap_entries :: "(string \<times> string) list" where
  "languageMap_entries =
     [(''py'', ''Python''), (''js'', ''JavaScript''), (''ts'', ''TypeScript''),
      (''jsx'', ''JavaScript''), (''tsx'', ''TypeScript''), (''html'', ''HTML''),
      (''css'', ''CSS''), (''cpp'', ''C++''), (''c'', ''C''), (''h'', ''C''),
      (''hpp'', ''C++''), (''java'', ''Java''), (''rs'', ''Rust''), (''go'', ''Golang''),
      (''rb'', ''Ruby''), (''php'', ''PHP''), (''cs'', ''C#''), (''swift'', ''Swift''),
      (''kt'', ''Kotlin'')]"

text \<open>
  \<open>languageMap\<close> is an object literal, and \<open>languageMap[ext]\<close> also finds the properties
  that every object literal inherits from \<open>Object.prototype\<close>. Their values are functions
  (an object for \<open>__proto__\<close>): truthy, and turned into a string when used as the
  property key in \<open>languageCounts[language]\<close>. The table below gives, for each inherited
  property, the key it becomes.
\<close>

definition native_function :: "string \<Rightarrow> string" where
  "native_function f = ''function '' @ f @ ''() { [native code] }''"

definition Object_prototype_entries :: "(string \<times> string) list" where
  "Object_prototype_entries =
     [(''constructor'', native_function ''Object''),
      (''__proto__'', ''[object Object]''),
      (''hasOwnProperty'', native_function ''hasOwnProperty''),
      (''isPrototypeOf'', native_function ''isPrototypeOf''),
      (''propertyIsEnumerable'', native_function ''propertyIsEnumerable''),
      (''toLocaleString'', native_function ''toLocaleString''),
      (''toString'', native_function ''toString''),
      (''valueOf'', native_function ''valueOf''),
      (''__defineGetter__'', native_function ''__defineGetter__''),
      (''__defineSetter__'', native_function ''__defineSetter__''),
      (''__lookupGetter__'', native_function ''__lookupGetter__''),
      (''__lookupSetter__'', native_function ''__lookupSetter__'')]"

definition languageMap :: "string \<Rightarrow> string option" where
  "languageMap ext =
     (case map_of languageMap_entries ext of
        Some label \<Rightarrow> Some label
      | None \<Rightarrow> map_of Object_prototype_entries ext)"

text \<open>
  \<open>languageCounts\<close> is an object with string keys, none of them an integer index:
  \<open>Object.entries\<close> lists them in the order of their first insertion.
\<close>

fun increment :: "string \<Rightarrow> (string \<times> nat) list \<Rightarrow> (string \<times> nat) list" where
  "increment language [] = [(language, 1)]"
| "increment language ((k, n) # counts) =
     (if k = language then (k, n + 1) # counts else (k, n) # increment language counts)"

definition count_language :: "(string \<times> nat) list \<Rightarrow> string \<Rightarrow> (string \<times> nat) list" where
  "count_language languageCounts ext =
     (case languageMap ext of
        Some language \<Rightarrow>
          if language \<noteq> [] then increment language languageCounts else languageCounts
      | None \<Rightarrow> languageCounts)"

definition most_common :: "string \<times> nat \<Rightarrow> string \<times> nat \<Rightarrow> string \<times> nat" where
  "most_common best entry =
     (if snd entry > snd best then entry else best)"

definition primaryLanguage :: "repo_content_item list \<Rightarrow> string" where
  "primaryLanguage contents =
     fst (foldl most_common ([], 0)
            (foldl count_language [] (fileExtensions contents)))"

definition detectProgrammingLanguages ::
  "string \<Rightarrow> string
     \<Rightarrow> (string \<Rightarrow> repo_content_item contents_payload fetch_outcome) \<Rightarrow> browser
     \<Rightarrow> string \<times> browser" where
  "detectProgrammingLanguages username repoName server st =
     (case fetchRepoContents username repoName [] server st of
        (Inl e, st1) \<Rightarrow> ([], st1)
      | (Inr contents, st1) \<Rightarrow> (primaryLanguage contents, st1))"

section \<open>Live-page probe\<close>

text \<open>
  \<open>contents.some\<close> is a method of arrays only: on a single object the call throws a
  \<open>TypeError\<close>, which the \<open>catch\<close> turns into \<open>false\<close>.
\<close>

definition checkRepoContents ::
  "string \<Rightarrow> string
     \<Rightarrow> (string \<Rightarrow> repo_content_item contents_payload fetch_outcome) \<Rightarrow> bool" where
  "checkRepoContents username repoName server =
     (case server (contents_url username repoName ''index.html'') of
        Inl e \<Rightarrow> False
      | Inr rootResponse \<Rightarrow>
          if ok rootResponse then True
          else
            (case server (GITHUB_API_BASE @ ''/repos/'' @ username @ ''/'' @ repoName
                            @ ''/contents'') of
               Inl e \<Rightarrow> False
             | Inr contentsResponse \<Rightarrow>
                 if \<not> ok contentsResponse then False
                 else
                   (case json contentsResponse of
                      Inl e \<Rightarrow> False
                    | Inr (Single item) \<Rightarrow> False
                    | Inr (Listing contents) \<Rightarrow>
                        list_ex (\<lambda>item. type item = File
                                   \<and> endsWith (toLowerCase (name item)) ''.html'')
                          contents)))"

section \<open>Package manifest probe\<close>

record branch =
  branch_name :: string
  commit_sha :: string

text \<open>
  The file metadata of the contents endpoint, as far as the code reads it
  (the interface \<open>RepoContent\<close>); an absent field is \<open>None\<close>.
\<close>

record repo_content =
  content_type :: string
  content_name :: string
  content_path :: string
  sha :: string
  content :: "string option"
  encoding :: "string option"
  content_size :: "nat option"
  url :: "string option"

text \<open>A value produced by \<open>JSON.parse\<close>; \<open>None\<close> of \<open>json_value option\<close> is \<open>undefined\<close>.\<close>

datatype json_value =
  JNull
  | JBool bool
  | JNumber rat
  | JString string
  | JArray "json_value list"
  | JObject "(string \<times> json_value) list"

fun js_truthy :: "json_value option \<Rightarrow> bool" where
  "js_truthy None = False"
| "js_truthy (Some JNull) = False"
| "js_truthy (Some (JBool b)) = b"
| "js_truthy (Some (JNumber n)) = (n \<noteq> 0)"
| "js_truthy (Some (JString s)) = (s \<noteq> [])"
| "js_truthy (Some (JArray xs)) = True"
| "js_truthy (Some (JObject kvs)) = True"

text \<open>\<open>content.homepage\<close>: a \<open>TypeError\<close> on \<open>null\<close>, \<open>undefined\<close> on a primitive or an array.\<close>

fun get_homepage :: "json_value \<Rightarrow> js_error + json_value option" where
  "get_homepage JNull =
     Inl (TypeError ''Cannot read properties of null'')"
| "get_homepage (JObject kvs) = Inr (map_of kvs ''homepage'')"
| "get_homepage v = Inr None"

record manifest_result =
  hasPackageJson :: bool
  packageJsonHomepage :: "string option"

definition branches_url :: "string \<Rightarrow> string \<Rightarrow> string" where
  "branches_url username repoName =
     GITHUB_API_BASE @ ''/repos/'' @ username @ ''/'' @ repoName @ ''/branches''"

definition package_json_url :: "string \<Rightarrow> string \<Rightarrow> string \<Rightarrow> string" where
  "package_json_url username repoName ref =
     GITHUB_API_BASE @ ''/repos/'' @ username @ ''/'' @ repoName
       @ ''/contents/package.json?ref='' @ ref"

text \<open>\<open>atob(data.content)\<close>: an absent field is passed as \<open>undefined\<close> and read as that word.\<close>

definition string_of_content :: "string option \<Rightarrow> string" where
  "string_of_content c = (case c of Some s \<Rightarrow> s | None \<Rightarrow> ''undefined'')"

text \<open>
  The body of the inner \<open>try\<close> for one branch: \<open>Inr (Some result)\<close> is the \<open>return\<close>
  inside the loop, \<open>Inr None\<close> falls through to the next branch, \<open>Inl e\<close> is an exception.
  \<open>JSON.parse\<close> is a parameter.
\<close>

definition check_branch ::
  "(string \<Rightarrow> js_error + json_value) \<Rightarrow> string \<Rightarrow> string
     \<Rightarrow> (string \<Rightarrow> repo_content fetch_outcome) \<Rightarrow> branch
     \<Rightarrow> js_error + manifest_result option" where
  "check_branch JSON_parse username repoName server b =
     (case server (package_json_url username repoName (branch_name b)) of
        Inl e \<Rightarrow> Inl e
      | Inr response \<Rightarrow>
          if ok response then
            (case json response of
               Inl e \<Rightarrow> Inl e
             | Inr data \<Rightarrow>
                 (case atob (string_of_content (content data)) of
                    Inl e \<Rightarrow> Inl e
                  | Inr decoded \<Rightarrow>
                      (case JSON_parse decoded of
                         Inl e \<Rightarrow> Inl e
                       | Inr manifest \<Rightarrow>
                           (case get_homepage manifest of
                              Inl e \<Rightarrow> Inl e
                            | Inr hp \<Rightarrow>
                                if js_truthy hp then
                                  (case hp of
                                     Some (JString h) \<Rightarrow>
                                       Inr (Some \<lparr>hasPackageJson = True,
                                                 packageJsonHomepage =
                                                   Some (filter (\<lambda>c. c \<noteq> CHR 0x60) (trim h))\<rparr>)
                                   | _ \<Rightarrow>
                                       Inl (TypeError ''content.homepage.trim is not a function''))
                                else Inr None))))
          else Inr None)"

text \<open>
  The \<open>for\<close> loop over the branches with its \<open>catch\<close>; the second component is the list
  of the addresses requested, in order.
\<close>

fun check_branches ::
  "(string \<Rightarrow> js_error + json_value) \<Rightarrow> string \<Rightarrow> string
     \<Rightarrow> (string \<Rightarrow> repo_content fetch_outcome) \<Rightarrow> branch list
     \<Rightarrow> manifest_result \<times> string list" where
  "check_branches JSON_parse username repoName server [] =
     (\<lparr>hasPackageJson = False, packageJsonHomepage = None\<rparr>, [])"
| "check_branches JSON_parse username repoName server (b # bs) =
     (case check_branch JSON_parse username repoName server b of
        Inr (Some result) \<Rightarrow> (result, [package_json_url username repoName (branch_name b)])
      | Inr None \<Rightarrow>
          (let (result, urls) = check_branches JSON_parse username repoName server bs
           in (result, package_json_url username repoName (branch_name b) # urls))
      | Inl branchError \<Rightarrow>
          (let (result, urls) = check_branches JSON_parse username repoName server bs
           in (result, package_json_url username repoName (branch_name b) # urls)))"

definition checkForPackageJson ::
  "(string \<Rightarrow> js_error + json_value) \<Rightarrow> string \<Rightarrow> string
     \<Rightarrow> (string \<Rightarrow> branch list fetch_outcome)
     \<Rightarrow> (string \<Rightarrow> repo_content fetch_outcome)
     \<Rightarrow> manifest_result \<times> string list" where
  "checkForPackageJson JSON_parse username repoName branches_server server =
     (case branches_server (branches_url username repoName) of
        Inl e \<Rightarrow>
          (\<lparr>hasPackageJson = False, packageJsonHomepage = None\<rparr>,
           [branches_url username repoName])
      | Inr branchesResponse \<Rightarrow>
          if \<not> ok branchesResponse then
            (\<lparr>hasPackageJson = False, packageJsonHomepage = None\<rparr>,
             [branches_url username repoName])
          else
            (case json branchesResponse of
               Inl e \<Rightarrow>
                 (\<lparr>hasPackageJson = False, packageJsonHomepage = None\<rparr>,
                  [branches_url username repoName])
             | Inr branches \<Rightarrow>
                 (let (result, urls) =
                        check_branches JSON_parse username repoName server branches
                  in (result, branches_url username repoName # urls))))"

text \<open>
  What the specification calls the homepage of a branch's manifest: the request for
  \<open>package.json\<close> at the branch succeeds, its payload decodes (JSON envelope, base64,
  JSON text), and the manifest object has a \<open>homepage\<close> field that is a non-empty string.
  Every failure on the way is \<open>None\<close>.
\<close>

definition manifest_homepage ::
  "(string \<Rightarrow> js_error + json_value) \<Rightarrow> string \<Rightarrow> string
     \<Rightarrow> (string \<Rightarrow> repo_content fetch_outcome) \<Rightarrow> branch \<Rightarrow> string option" where
  "manifest_homepage JSON_parse username repoName server b =
     (case server (package_json_url username repoName (branch_name b)) of
        Inl e \<Rightarrow> None
      | Inr response \<Rightarrow>
          if \<not> ok response then None
          else
            (case json response of
               Inl e \<Rightarrow> None
             | Inr data \<Rightarrow>
                 (case atob (string_of_content (content data)) of
                    Inl e \<Rightarrow> None
                  | Inr decoded \<Rightarrow>
                      (case JSON_parse decoded of
                         Inr (JObject kvs) \<Rightarrow>
                           (case map_of kvs ''homepage'' of
                              Some (JString h) \<Rightarrow> if h \<noteq> [] then Some h else None
                            | _ \<Rightarrow> None)
                       | _ \<Rightarrow> None))))"

section \<open>Repository content viewer\<close>

text \<open>
  The React state of the viewer that the fetching callbacks read and set. A callback
  reads the values it closed over; they are taken to be those of the state at the call.
\<close>

record viewer =
  contents :: "repo_content list"
  currentPath :: string
  loading :: bool
  error :: "string option"
  selectedFile :: "repo_content option"
  fileContent :: string
  branches :: "branch list"
  currentBranch :: string

fun message :: "js_error \<Rightarrow> string" where
  "message (Error m) = m"
| "message (TypeError m) = m"
| "message (SyntaxError m) = m"
| "message (InvalidCharacterError m) = m"

subsection \<open>Branches\<close>

text \<open>
  The expression
  \<open>data.find(b => b.name === 'main') || data.find(b => b.name === 'master') || data[0]\<close>;
  \<open>None\<close> is \<open>undefined\<close>, the value of \<open>data[0]\<close> on the empty array.
\<close>

definition defaultBranch :: "branch list \<Rightarrow> branch option" where
  "defaultBranch data =
     (case find (\<lambda>b. branch_name b = ''main'') data of
        Some b \<Rightarrow> Some b
      | None \<Rightarrow>
          (case find (\<lambda>b. branch_name b = ''master'') data of
             Some b \<Rightarrow> Some b
           | None \<Rightarrow> (case data of [] \<Rightarrow> None | b # bs \<Rightarrow> Some b)))"

text \<open>The body of the \<open>try\<close> of \<open>fetchBranches\<close>, then the callback with its \<open>catch\<close>.\<close>

definition fetchBranches_try ::
  "string \<Rightarrow> string \<Rightarrow> (string \<Rightarrow> branch list fetch_outcome) \<Rightarrow> viewer
     \<Rightarrow> js_error + viewer" where
  "fetchBranches_try username repoName server v =
     (case server (''https://api.github.com/repos/'' @ username @ ''/'' @ repoName
                     @ ''/branches'') of
        Inl e \<Rightarrow> Inl e
      | Inr response \<Rightarrow>
          if \<not> ok response then Inl (Error ''Failed to fetch branches'')
          else
            (case json response of
               Inl e \<Rightarrow> Inl e
             | Inr data \<Rightarrow>
                 (let v1 = v\<lparr>branches := data\<rparr> in
                  if currentBranch v = ''main'' \<and> length data > 0 then
                    (case defaultBranch data of
                       Some b \<Rightarrow> Inr (v1\<lparr>currentBranch := branch_name b\<rparr>)
                     | None \<Rightarrow> Inl (TypeError ''Cannot read properties of undefined''))
                  else Inr v1)))"

definition fetchBranches ::
  "string \<Rightarrow> string \<Rightarrow> (string \<Rightarrow> branch list fetch_outcome) \<Rightarrow> viewer \<Rightarrow> viewer" where
  "fetchBranches username repoName server v =
     (case fetchBranches_try username repoName server v of
        Inr v1 \<Rightarrow> v1
      | Inl err \<Rightarrow> v)"

subsection \<open>File bodies\<close>

text \<open>The decode step of \<open>fetchFileContent\<close> on the parsed metadata \<open>data\<close>.\<close>

definition decode_file_data :: "repo_content \<Rightarrow> repo_content \<Rightarrow> js_error + string" where
  "decode_file_data file data =
     (if encoding data = Some ''base64'' \<and> truthy (content data) then
        (case content data of
           Some c \<Rightarrow> atob (filter (\<lambda>ch. ch \<noteq> CHR 0x0A) c)
         | None \<Rightarrow> Inr [])
      else
        (case content data of
           Some c \<Rightarrow> Inr c
         | None \<Rightarrow> Inr (''Could not decode or retrieve content for '' @ content_name file)))"

definition file_url :: "repo_content \<Rightarrow> string" where
  "file_url file = (case url file of Some u \<Rightarrow> u | None \<Rightarrow> ''undefined'')"

definition fetch_file_details ::
  "repo_content \<Rightarrow> (string \<Rightarrow> repo_content fetch_outcome) \<Rightarrow> js_error + string" where
  "fetch_file_details file server =
     (case server (file_url file) of
        Inl e \<Rightarrow> Inl e
      | Inr response \<Rightarrow>
          if \<not> ok response then
            Inl (Error (''Failed to fetch file details for '' @ content_name file))
          else
            (case json response of
               Inl e \<Rightarrow> Inl e
             | Inr data \<Rightarrow> decode_file_data file data))"

definition fetchFileContent ::
  "repo_content \<Rightarrow> (string \<Rightarrow> repo_content fetch_outcome) \<Rightarrow> viewer \<Rightarrow> viewer" where
  "fetchFileContent file server v =
     (let v0 = v\<lparr>loading := True\<rparr> in
      case fetch_file_details file server of
        Inr c \<Rightarrow> v0\<lparr>fileContent := c, selectedFile := Some file, loading := False\<rparr>
      | Inl jsonError \<Rightarrow>
          (case server (file_url file) of
             Inl err \<Rightarrow>
               v0\<lparr>error := Some (message err), selectedFile := None, loading := False\<rparr>
           | Inr textResponse \<Rightarrow>
               if \<not> ok textResponse then
                 v0\<lparr>error := Some (''Failed to fetch plain text content for ''
                                      @ content_name file),
                    selectedFile := None, loading := False\<rparr>
               else
                 v0\<lparr>fileContent := text_body textResponse, selectedFile := Some file,
                    loading := False\<rparr>))"

subsection \<open>Directory listing of the viewer\<close>

definition viewer_contents_url :: "string \<Rightarrow> string \<Rightarrow> string \<Rightarrow> string \<Rightarrow> string" where
  "viewer_contents_url username repoName p ref =
     ''https://api.github.com/repos/'' @ username @ ''/'' @ repoName @ ''/contents/'' @ p
       @ ''?ref='' @ ref"

definition viewer_fetchRepoContents ::
  "string \<Rightarrow> string \<Rightarrow> (string \<Rightarrow> repo_content contents_payload fetch_outcome)
     \<Rightarrow> (string \<Rightarrow> repo_content fetch_outcome) \<Rightarrow> viewer \<Rightarrow> viewer" where
  "viewer_fetchRepoContents username repoName server file_server v =
     (let v0 = v\<lparr>loading := True, selectedFile := None, fileContent := []\<rparr> in
      case server (viewer_contents_url username repoName (currentPath v) (currentBranch v)) of
        Inl err \<Rightarrow> v0\<lparr>error := Some (message err), loading := False\<rparr>
      | Inr response \<Rightarrow>
          if \<not> ok response then
            v0\<lparr>error := Some ''Failed to fetch repository contents'', loading := False\<rparr>
          else
            (case json response of
               Inl err \<Rightarrow> v0\<lparr>error := Some (message err), loading := False\<rparr>
             | Inr data \<Rightarrow>
                 (let listing = (case data of Listing items \<Rightarrow> items | Single item \<Rightarrow> [item]);
                      v1 = v0\<lparr>contents := listing\<rparr>
                  in if currentPath v = [] \<and> selectedFile v = None then
                       (case find (\<lambda>item. content_type item = ''file''
                                      \<and> startsWith (toLowerCase (content_name item)) ''readme'')
                               listing of
                          Some readmeFile \<Rightarrow>
                            (fetchFileContent readmeFile file_server v1)\<lparr>loading := False\<rparr>
                        | None \<Rightarrow> v1\<lparr>loading := False\<rparr>)
                     else v1\<lparr>loading := False\<rparr>)))"

subsection \<open>Image references in markdown\<close>

text \<open>
  One attempt of the regular expression \<open>/!\[([^\]]*)\]\((?!http)([^)]*)\)/\<close> at the start
  of a string. Both starred classes are followed by the one character they exclude, so
  backtracking finds nothing the longest run does not: the match at a position is unique.
  The result is the two captures and the text after the match.
\<close>

definition match_image :: "string \<Rightarrow> (string \<times> string \<times> string) option" where
  "match_image s =
     (case s of
        c1 # c2 # r \<Rightarrow>
          if c1 = CHR ''!'' \<and> c2 = CHR ''['' then
            (case dropWhile (\<lambda>c. c \<noteq> CHR '']'') r of
               d1 # d2 # r2 \<Rightarrow>
                 if d2 = CHR ''('' \<and> \<not> startsWith r2 ''http'' then
                   (case dropWhile (\<lambda>c. c \<noteq> CHR '')'') r2 of
                      e # rest \<Rightarrow>
                        Some (takeWhile (\<lambda>c. c \<noteq> CHR '']'') r,
                              takeWhile (\<lambda>c. c \<noteq> CHR '')'') r2, rest)
                    | [] \<Rightarrow> None)
                 else None
             | _ \<Rightarrow> None)
          else None
      | _ \<Rightarrow> None)"

text \<open>
  The expansion of a replacement string (\<open>GetSubstitution\<close> of ECMAScript) for a regular
  expression without named groups: \<open>$$\<close>, \<open>$&\<close>, \<open>$`\<close>, \<open>$'\<close>, and \<open>$n\<close>, \<open>$nn\<close> for a
  capture that exists; any other \<open>$\<close> stands for itself.
\<close>

definition is_digit :: "char \<Rightarrow> bool" where
  "is_digit c = (48 \<le> (of_char c :: nat) \<and> (of_char c :: nat) \<le> 57)"

definition digit_value :: "char \<Rightarrow> nat" where
  "digit_value c = of_char c - 48"

fun GetSubstitution :: "string \<Rightarrow> string \<Rightarrow> string \<Rightarrow> string list \<Rightarrow> string \<Rightarrow> string" where
  "GetSubstitution matched preceding following captures [] = []"
| "GetSubstitution matched preceding following captures [c] = [c]"
| "GetSubstitution matched preceding following captures (c # d # t) =
     (if c \<noteq> CHR ''$'' then c # GetSubstitution matched preceding following captures (d # t)
      else if d = CHR ''$'' then CHR ''$'' # GetSubstitution matched preceding following captures t
      else if d = CHR ''&'' then matched @ GetSubstitution matched preceding following captures t
      else if d = CHR 0x60 then preceding @ GetSubstitution matched preceding following captures t
      else if d = CHR 0x27 then following @ GetSubstitution matched preceding following captures t
      else if is_digit d then
        (case t of
           [] \<Rightarrow>
             if 1 \<le> digit_value d \<and> digit_value d \<le> length captures
             then captures ! (digit_value d - 1)
             else [c, d]
         | e # t' \<Rightarrow>
             if is_digit e \<and> 10 * digit_value d + digit_value e \<le> length captures then
               (if 1 \<le> 10 * digit_value d + digit_value e
                then captures ! (10 * digit_value d + digit_value e - 1)
                       @ GetSubstitution matched preceding following captures t'
                else c # d # e # GetSubstitution matched preceding following captures t')
             else if 1 \<le> digit_value d \<and> digit_value d \<le> length captures then
               captures ! (digit_value d - 1)
                 @ GetSubstitution matched preceding following captures (e # t')
             else c # d # GetSubstitution matched preceding following captures (e # t'))
      else c # GetSubstitution matched preceding following captures (d # t))"

text \<open>
  \<open>content.replace(regex, replacement)\<close> with the \<open>g\<close> flag: the matches are found from
  left to right, each search starting where the previous match ended; the text between
  the matches is kept. \<open>preceding\<close> is the text of the subject before the current
  position. A match is at least four characters long, so the loop advances.
\<close>

lemma match_image_shorter:
  "match_image s = Some (alt, p, rest) \<Longrightarrow> length rest < length s"
proof -
  assume m: "match_image s = Some (alt, p, rest)"
  have dw: "\<And>P (xs::string). length (dropWhile P xs) \<le> length xs"
    by (simp add: length_dropWhile_le)
  from m obtain c1 c2 r d1 d2 r2 e where
    s: "s = c1 # c2 # r" and
    d: "dropWhile (\<lambda>c. c \<noteq> CHR '']'') r = d1 # d2 # r2" and
    e: "dropWhile (\<lambda>c. c \<noteq> CHR '')'') r2 = e # rest"
    by (auto simp: match_image_def split: list.splits if_splits)
  have "length (e # rest) \<le> length r2" using dw[of _ r2] e by metis
  moreover have "length (d1 # d2 # r2) \<le> length r" using dw[of _ r] d by metis
  ultimately show ?thesis using s by simp
qed

function replace_images :: "string \<Rightarrow> string \<Rightarrow> string \<Rightarrow> string" where
  "replace_images replacement preceding [] = []"
| "replace_images replacement preceding (c # s) =
     (case match_image (c # s) of
        Some (alt, p, rest) \<Rightarrow>
          (let matched = take (length (c # s) - length rest) (c # s) in
           GetSubstitution matched preceding rest [alt, p] replacement
             @ replace_images replacement (preceding @ matched) rest)
      | None \<Rightarrow> c # replace_images replacement (preceding @ [c]) s)"
  by pat_completeness auto
termination
  by (relation "measure (\<lambda>(replacement, preceding, s). length s)")
     (auto dest: match_image_shorter)

text \<open>The template literal that is passed as the replacement string.\<close>

definition image_replacement :: "string \<Rightarrow> string \<Rightarrow> string \<Rightarrow> string" where
  "image_replacement username repoName ref =
     ''![$1](https://raw.githubusercontent.com/'' @ username @ ''/'' @ repoName @ ''/''
       @ ref @ ''/$2)''"

definition processMarkdownContent :: "string \<Rightarrow> string \<Rightarrow> viewer \<Rightarrow> string \<Rightarrow> string" where
  "processMarkdownContent username repoName v markdown =
     replace_images (image_replacement username repoName (currentBranch v)) [] markdown"

section \<open>Profile README\<close>

text \<open>
  The state of the README component. The three rewrites of the fetched HTML are not
  part of what is verified here and enter as the parameter \<open>processHtml\<close>.
\<close>

record readme_view =
  readme :: string
  readme_loading :: bool
  readme_error :: "string option"

definition readme_url :: "string \<Rightarrow> string" where
  "readme_url username =
     ''https://api.github.com/repos/'' @ username @ ''/'' @ username @ ''/readme''"

text \<open>
  The body of the \<open>try\<close> after the response has arrived: \<open>Inr (Some html)\<close> is the
  processed page, \<open>Inr None\<close> is the retry after the handler has returned, \<open>Inl e\<close> is an
  exception.
\<close>

definition readme_try ::
  "(string \<Rightarrow> string) \<Rightarrow> 'a fetch_outcome \<Rightarrow> browser
     \<Rightarrow> (js_error + string option) \<times> browser" where
  "readme_try processHtml outcome st =
     (case outcome of
        Inl e \<Rightarrow> (Inl e, st)
      | Inr response \<Rightarrow>
          if \<not> ok response then
            (if status response = 401 \<or> status response = 403 then
               (case handleApiError response st of
                  (Inl authError, st1) \<Rightarrow> (Inl authError, st1)
                | (Inr u, st1) \<Rightarrow> (Inr None, st1))
             else
               (Inl (Error (''GitHub API error: '' @ number_toString (status response))), st))
          else (Inr (Some (processHtml (text_body response))), st))"

text \<open>
  The \<open>catch\<close> block: the flag tells whether it ends in the retry
  (\<open>fetchReadme(); return\<close>) or falls through to the error display.
\<close>

definition readme_catch ::
  "js_error \<Rightarrow> readme_view \<Rightarrow> browser \<Rightarrow> bool \<times> readme_view \<times> browser" where
  "readme_catch err v st =
     (let errorMessage = message err;
          shown = v\<lparr>readme := ''<div class=\"readme-error\">'' @ message err @ ''</div>''\<rparr>
      in if includes_str errorMessage ''404'' then
           (False,
            shown\<lparr>readme_error :=
                     Some ''README not found. This user may not have a profile README.''\<rparr>,
            st)
         else if includes_str errorMessage ''401'' \<or> includes_str errorMessage ''403'' then
           (if \<not> truthy (getGitHubToken st) then
              (case prompt st of
                 (Some newToken, st1) \<Rightarrow>
                   if newToken \<noteq> [] then (True, v, setGitHubToken newToken st1)
                   else
                     (False,
                      shown\<lparr>readme_error :=
                               Some ''Authentication error. Please try logging in with a GitHub token.''\<rparr>,
                      st1)
               | (None, st1) \<Rightarrow>
                   (False,
                    shown\<lparr>readme_error :=
                             Some ''Authentication error. Please try logging in with a GitHub token.''\<rparr>,
                    st1))
            else
              (False,
               shown\<lparr>readme_error :=
                        Some ''Authentication error. Please try logging in with a GitHub token.''\<rparr>,
               st))
         else
           (False,
            shown\<lparr>readme_error := Some (''Failed to load README: '' @ errorMessage)\<rparr>,
            st))"

text \<open>
  One run of \<open>fetchReadme\<close> up to its retry, on the outcome of its request: the flag
  tells whether the function calls itself again.
\<close>

definition readme_attempt ::
  "(string \<Rightarrow> string) \<Rightarrow> string \<Rightarrow> 'a fetch_outcome \<Rightarrow> readme_view \<times> browser
     \<Rightarrow> bool \<times> readme_view \<times> browser" where
  "readme_attempt processHtml username outcome vs =
     (let v0 = (fst vs)\<lparr>readme_loading := True, readme_error := None\<rparr>;
          st0 = log_request (readme_url username) (snd vs)
      in case readme_try processHtml outcome st0 of
           (Inr (Some html), st1) \<Rightarrow> (False, v0\<lparr>readme := html, readme_loading := False\<rparr>, st1)
         | (Inr None, st1) \<Rightarrow> (True, v0, st1)
         | (Inl err, st1) \<Rightarrow>
             (case readme_catch err v0 st1 of
                (True, v1, st2) \<Rightarrow> (True, v1, st2)
              | (False, v1, st2) \<Rightarrow> (False, v1\<lparr>readme_loading := False\<rparr>, st2)))"

text \<open>
  \<open>fetchReadme\<close> on the script of the outcomes of its successive requests; a request
  beyond the script fails at the network level.
\<close>

fun fetchReadme ::
  "(string \<Rightarrow> string) \<Rightarrow> string \<Rightarrow> 'a fetch_outcome list \<Rightarrow> readme_view \<times> browser
     \<Rightarrow> readme_view \<times> browser" where
  "fetchReadme processHtml username [] vs =
     snd (readme_attempt processHtml username
            (Inl (TypeError ''Failed to fetch'') :: 'a fetch_outcome) vs)"
| "fetchReadme processHtml username (outcome # script) vs =
     (case readme_attempt processHtml username outcome vs of
        (True, vs1) \<Rightarrow> fetchReadme processHtml username script vs1
      | (False, vs1) \<Rightarrow> vs1)"

section \<open>Example inputs\<close>

definition forbidden :: "'a response" where
  "forbidden =
     \<lparr>status = 403, statusText = ''Forbidden'',
      json = Inl (SyntaxError ''Unexpected end of JSON input''), text_body = []\<rparr>"

definition stored_token_browser :: browser where
  "stored_token_browser =
     \<lparr>env_token = None, github_token = Some ''stale'', prompts = [Some ''fresh''],
      requests = []\<rparr>"

definition env_token_browser :: browser where
  "env_token_browser =
     \<lparr>env_token = Some ''from-env'', github_token = Some ''stored'', prompts = [],
      requests = []\<rparr>"

definition server_error :: "'a response" where
  "server_error =
     \<lparr>status = 500, statusText = ''Internal Server Error'',
      json = Inl (SyntaxError ''Unexpected end of JSON input''), text_body = []\<rparr>"

definition empty_readme_view :: readme_view where
  "empty_readme_view = \<lparr>readme = [], readme_loading = True, readme_error = None\<rparr>"

definition cancelling_browser :: browser where
  "cancelling_browser =
     \<lparr>env_token = None, github_token = Some ''stale'',
      prompts = [None, Some ''second'', None, Some ''third'', None, None], requests = []\<rparr>"

definition ok_response :: "'a \<Rightarrow> 'a response" where
  "ok_response payload =
     \<lparr>status = 200, statusText = ''OK'', json = Inr payload, text_body = []\<rparr>"

definition not_found :: "'a response" where
  "not_found =
     \<lparr>status = 404, statusText = ''Not Found'',
      json = Inl (SyntaxError ''Unexpected end of JSON input''), text_body = []\<rparr>"

definition anonymous_browser :: browser where
  "anonymous_browser =
     \<lparr>env_token = None, github_token = None, prompts = [], requests = []\<rparr>"

definition initial_viewer :: viewer where
  "initial_viewer =
     \<lparr>contents = [], currentPath = [], loading = True, error = None, selectedFile = None,
      fileContent = [], branches = [], currentBranch = ''main''\<rparr>"

definition license_item :: repo_content_item where
  "license_item =
     \<lparr>name = ''LICENSE'', path = ''LICENSE'', type = File, size_bytes = 1071,
      download_url = None\<rparr>"

definition license_content :: repo_content where
  "license_content =
     \<lparr>content_type = ''file'', content_name = ''LICENSE'', content_path = ''LICENSE'',
      sha = ''9c8f3ea'', content = None, encoding = None, content_size = Some 1071,
      url = Some ''https://api.github.com/repos/octocat/demo/contents/LICENSE?ref=main''\<rparr>"

definition dev_branch :: branch where
  "dev_branch = \<lparr>branch_name = ''dev'', commit_sha = ''a1''\<rparr>"

definition main_branch :: branch where
  "main_branch = \<lparr>branch_name = ''main'', commit_sha = ''b2''\<rparr>"

definition master_branch :: branch where
  "master_branch = \<lparr>branch_name = ''master'', commit_sha = ''c3''\<rparr>"

definition site_directory :: repo_content_item where
  "site_directory =
     \<lparr>name = ''site.HTML'', path = ''site.HTML'', type = Dir, size_bytes = 0,
      download_url = None\<rparr>"

definition about_page :: repo_content_item where
  "about_page =
     \<lparr>name = ''About.HTML'', path = ''About.HTML'', type = File, size_bytes = 512,
      download_url = None\<rparr>"

definition example_manifest_text :: string where
  "example_manifest_text =
     ''{\"homepage\":\" '' @ [CHR 0x60] @ ''https://octocat.github.io/demo'' @ [CHR 0x60]
       @ '' \"}''"

definition example_manifest :: json_value where
  "example_manifest =
     JObject [(''homepage'',
               JString ('' '' @ [CHR 0x60] @ ''https://octocat.github.io/demo'' @ [CHR 0x60]
                          @ '' ''))]"

definition example_JSON_parse :: "string \<Rightarrow> js_error + json_value" where
  "example_JSON_parse s =
     (if s = example_manifest_text then Inr example_manifest
      else Inl (SyntaxError ''Unexpected token''))"

definition package_json_content :: repo_content where
  "package_json_content =
     \<lparr>content_type = ''file'', content_name = ''package.json'',
      content_path = ''package.json'', sha = ''4d5e6f'',
      content = Some ''eyJob21lcGFnZSI6IiBgaHR0cHM6Ly9vY3RvY2F0LmdpdGh1Yi5pby9kZW1vYCAifQ=='',
      encoding = Some ''base64'', content_size = Some 50, url = None\<rparr>"

definition example_manifest_server :: "string \<Rightarrow> repo_content fetch_outcome" where
  "example_manifest_server u =
     (if u = ''https://api.github.com/repos/octocat/demo/contents/package.json?ref=main''
      then Inr (ok_response package_json_content)
      else Inr not_found)"

definition example_bytes :: string where
  "example_bytes = ''hello'' @ [CHR 0x0A] @ ''world'' @ [CHR 0xE9]"

definition example_encoded :: string where
  "example_encoded = ''aGVsbG8K'' @ [CHR 0x0A] @ ''d29ybGTp'' @ [CHR 0x0A]"

definition example_file :: repo_content where
  "example_file =
     \<lparr>content_type = ''file'', content_name = ''notes.txt'', content_path = ''notes.txt'',
      sha = ''7a8b9c'', content = None, encoding = None, content_size = Some 12,
      url = Some ''https://api.github.com/repos/octocat/demo/contents/notes.txt?ref=main''\<rparr>"

definition example_file_data :: repo_content where
  "example_file_data = example_file\<lparr>content := Some example_encoded, encoding := Some ''base64''\<rparr>"

definition file_named :: "string \<Rightarrow> repo_content_item" where
  "file_named n =
     \<lparr>name = n, path = n, type = File, size_bytes = 1, download_url = None\<rparr>"

definition viewer_on_branch :: "string \<Rightarrow> viewer" where
  "viewer_on_branch ref =
     \<lparr>contents = [], currentPath = [], loading = False, error = None, selectedFile = None,
      fileContent = [], branches = [], currentBranch = ref\<rparr>"

definition unparsable :: "'a response" where
  "unparsable =
     \<lparr>status = 200, statusText = ''OK'', json = Inl (SyntaxError ''Unexpected token''),
      text_body = ''<!DOCTYPE html>''\<rparr>"

section \<open>Properties of the error handler\<close>

lemma handleApiError_throws:
  "fst (handleApiError response st) = Inl (Error (api_error_message response))"
  by (simp add: handleApiError_def Let_def split: prod.splits)

lemma handleApiError_requests:
  "requests (snd (handleApiError response st)) = requests st"
  by (simp add: handleApiError_def Let_def prompt_def setGitHubToken_def
      removeItem_github_token_def split: prod.splits list.splits option.splits)

lemma handleApiError_env_token:
  "env_token (snd (handleApiError response st)) = env_token st"
  by (simp add: handleApiError_def Let_def prompt_def setGitHubToken_def
      removeItem_github_token_def split: prod.splits list.splits option.splits)

lemma number_toString_403: "number_toString 403 = ''403''"
  by (simp add: number_toString.simps digit_char_def)

section \<open>The handler always throws\<close>

text \<open>
  C10. Whatever the response and the state, \<open>handleApiError\<close> ends in \<open>throw\<close> of an
  error whose message carries the numeric status and the status text. This is so on 401
  and 403 too, after the stored token has been removed and also when the token just
  entered at the prompt has been saved. Hence in \<open>fetchUserRepositories\<close> the recursive
  call after the handler is never reached: on a response that is not 2xx the caller gets
  that exception, and exactly one request has been made, whatever the provider would
  have answered to further requests.
\<close>

theorem handleApiError_always_throws:
  "fst (handleApiError response st)
     = Inl (Error (''GitHub API error: '' @ number_toString (status response) @ '' ''
                     @ statusText response))
   \<and> ((status response = 401 \<or> status response = 403) \<and> \<not> truthy (env_token st)
        \<and> prompts st = Some new # later \<and> new \<noteq> []
      \<longrightarrow> github_token (snd (handleApiError response st)) = Some new)
   \<and> (\<not> ok response \<longrightarrow>
        fst (fetchUserRepositories username (Inr response # script) st)
          = Inl (Error (''GitHub API error: '' @ number_toString (status response) @ '' ''
                          @ statusText response))
        \<and> requests (snd (fetchUserRepositories username (Inr response # script) st))
          = requests st @ [user_repos_url username])"
proof (intro conjI impI)
  show "fst (handleApiError response st)
     = Inl (Error (''GitHub API error: '' @ number_toString (status response) @ '' ''
                     @ statusText response))"
    using handleApiError_throws[of response st] by (simp add: api_error_message_def)
next
  assume "(status response = 401 \<or> status response = 403) \<and> \<not> truthy (env_token st)
        \<and> prompts st = Some new # later \<and> new \<noteq> []"
  then show "github_token (snd (handleApiError response st)) = Some new"
    by (simp add: handleApiError_def Let_def prompt_def setGitHubToken_def
        removeItem_github_token_def)
next
  assume nok: "\<not> ok response"
  obtain e st1 where
    h: "handleApiError response (log_request (user_repos_url username) st) = (Inl e, st1)"
    and e: "e = Error (api_error_message response)"
    using handleApiError_throws[of response "log_request (user_repos_url username) st"]
    by (cases "handleApiError response (log_request (user_repos_url username) st)") auto
  have r: "fetchUserRepositories username (Inr response # script) st = (Inl e, st1)"
    using nok h by (simp add: Let_def)
  show "fst (fetchUserRepositories username (Inr response # script) st)
          = Inl (Error (''GitHub API error: '' @ number_toString (status response) @ '' ''
                          @ statusText response))"
    using r e by (simp add: api_error_message_def)
  have "requests st1 = requests (log_request (user_repos_url username) st)"
    using handleApiError_requests[of response "log_request (user_repos_url username) st"] h
    by simp
  then show "requests (snd (fetchUserRepositories username (Inr response # script) st))
          = requests st @ [user_repos_url username]"
    using r by (simp add: log_request_def)
qed

theorem handleApiError_always_throws_witness:
  "\<not> ok (forbidden :: repository list response)
   \<and> fst (fetchUserRepositories ''octocat'' [Inr forbidden, Inr forbidden] stored_token_browser)
       = Inl (Error ''GitHub API error: 403 Forbidden'')
   \<and> requests (snd (fetchUserRepositories ''octocat'' [Inr forbidden, Inr forbidden]
                      stored_token_browser))
       = [''https://api.github.com/users/octocat/repos?sort=updated&per_page=100'']
   \<and> github_token (snd (handleApiError (forbidden :: repository list response)
                           stored_token_browser)) = Some ''fresh''"
  using handleApiError_always_throws
          [of "forbidden :: repository list response" stored_token_browser "''fresh''" "[]"
              "''octocat''" "[Inr forbidden]"]
  by (simp add: forbidden_def ok_def stored_token_browser_def number_toString_403
      user_repos_url_def GITHUB_API_BASE_def)


section \<open>Token store and provider rejection\<close>

text \<open>
  C8, as the claim states it, fails: with an environment token in force, a 403 still
  removes the persisted token.
\<close>

theorem persisted_token_cleared_under_env_override:
  "truthy (env_token env_token_browser)
   \<and> github_token env_token_browser = Some ''stored''
   \<and> github_token (snd (handleApiError (forbidden :: unit response) env_token_browser)) = None"
  by (simp add: env_token_browser_def forbidden_def handleApiError_def Let_def
      getGitHubToken_def envToken_def removeItem_github_token_def)

text \<open>
  C8, amended. On a rejection (401 or 403) the persisted token is removed whenever a
  credential is in force, that is whenever \<open>getGitHubToken\<close> returns a non-empty value,
  also when this value is the environment override; without an environment override the
  token entered at the prompt, if any, is then stored. On every other status the handler
  leaves the state as it is. The environment value is never overwritten or cleared:
  \<open>getGitHubToken\<close> prefers it over the persisted value, and \<open>setGitHubToken\<close> and the
  handler change persisted storage only.
\<close>

theorem token_store_on_rejection:
  "(truthy (env_token st) \<longrightarrow> getGitHubToken st = env_token st)
   \<and> (\<not> truthy (env_token st) \<longrightarrow> getGitHubToken st = github_token st)
   \<and> env_token (setGitHubToken token st) = env_token st
   \<and> env_token (snd (handleApiError response st)) = env_token st
   \<and> (status response \<noteq> 401 \<and> status response \<noteq> 403 \<longrightarrow>
        snd (handleApiError response st) = st)
   \<and> ((status response = 401 \<or> status response = 403) \<and> truthy (env_token st) \<longrightarrow>
        snd (handleApiError response st) = st\<lparr>github_token := None\<rparr>)
   \<and> ((status response = 401 \<or> status response = 403) \<and> \<not> truthy (env_token st)
        \<and> truthy (github_token st) \<longrightarrow>
        github_token (snd (handleApiError response st))
          = (case prompts st of
               Some t # later \<Rightarrow> if t \<noteq> [] then Some t else None
             | _ \<Rightarrow> None))
   \<and> ((status response = 401 \<or> status response = 403) \<and> \<not> truthy (getGitHubToken st) \<longrightarrow>
        github_token (snd (handleApiError response st))
          = (case prompts st of
               Some t # later \<Rightarrow> if t \<noteq> [] then Some t else github_token st
             | _ \<Rightarrow> github_token st))"
proof (intro conjI impI)
  show "env_token (snd (handleApiError response st)) = env_token st"
    by (rule handleApiError_env_token)
next
  assume "(status response = 401 \<or> status response = 403) \<and> \<not> truthy (env_token st)
        \<and> truthy (github_token st)"
  then show "github_token (snd (handleApiError response st))
          = (case prompts st of
               Some t # later \<Rightarrow> if t \<noteq> [] then Some t else None
             | _ \<Rightarrow> None)"
    by (auto simp: handleApiError_def Let_def getGitHubToken_def envToken_def prompt_def
        setGitHubToken_def removeItem_github_token_def split: list.splits option.splits)
next
  assume "(status response = 401 \<or> status response = 403) \<and> \<not> truthy (getGitHubToken st)"
  then show "github_token (snd (handleApiError response st))
          = (case prompts st of
               Some t # later \<Rightarrow> if t \<noteq> [] then Some t else github_token st
             | _ \<Rightarrow> github_token st)"
    by (auto simp: handleApiError_def Let_def getGitHubToken_def envToken_def prompt_def
        setGitHubToken_def removeItem_github_token_def split: list.splits option.splits if_splits)
qed (auto simp: handleApiError_def Let_def getGitHubToken_def envToken_def
      setGitHubToken_def removeItem_github_token_def)

theorem token_store_on_rejection_witness:
  "getGitHubToken env_token_browser = Some ''from-env''
   \<and> snd (handleApiError (forbidden :: unit response) env_token_browser)
       = env_token_browser\<lparr>github_token := None\<rparr>
   \<and> snd (handleApiError (server_error :: unit response) env_token_browser) = env_token_browser
   \<and> getGitHubToken stored_token_browser = Some ''stale''
   \<and> github_token (snd (handleApiError (forbidden :: unit response) stored_token_browser))
       = Some ''fresh''
   \<and> github_token (snd (handleApiError (forbidden :: unit response)
                           (stored_token_browser\<lparr>github_token := None\<rparr>)))
       = Some ''fresh''"
  using token_store_on_rejection [of env_token_browser "[]" "forbidden :: unit response"]
    token_store_on_rejection [of env_token_browser "[]" "server_error :: unit response"]
    token_store_on_rejection [of stored_token_browser "[]" "forbidden :: unit response"]
    token_store_on_rejection
      [of "stored_token_browser\<lparr>github_token := None\<rparr>" "[]" "forbidden :: unit response"]
  by (simp add: env_token_browser_def stored_token_browser_def forbidden_def
      server_error_def)

section \<open>Rejection of a stored credential\<close>

text \<open>
  C7 on the repository listing. The browser holds a stored token and no environment
  token; the provider answers 403 and would answer 403 again. The stored token is
  removed and the one entered at the prompt is saved, but no second request is made:
  the request log holds the one address, and the caller gets the exception.
\<close>

theorem fetchUserRepositories_rejected_without_retry:
  "fetchUserRepositories ''octocat'' [Inr forbidden, Inr forbidden] stored_token_browser
     = (Inl (Error ''GitHub API error: 403 Forbidden''),
        \<lparr>env_token = None, github_token = Some ''fresh'', prompts = [],
         requests = [''https://api.github.com/users/octocat/repos?sort=updated&per_page=100'']\<rparr>)"
  by (simp add: forbidden_def ok_def stored_token_browser_def handleApiError_def Let_def
      getGitHubToken_def envToken_def removeItem_github_token_def prompt_def
      setGitHubToken_def api_error_message_def number_toString_403 log_request_def
      user_repos_url_def GITHUB_API_BASE_def)

text \<open>
  The README component on the same input: the handler throws, the \<open>catch\<close> block finds
  the token saved at the prompt and shows the authentication error without a retry.
\<close>

lemma fetchReadme_rejected_without_retry:
  "fetchReadme (\<lambda>html. html) ''octocat'' [Inr forbidden, Inr forbidden :: unit fetch_outcome]
       (empty_readme_view, stored_token_browser)
     = (\<lparr>readme = ''<div class=\"readme-error\">GitHub API error: 403 Forbidden</div>'',
         readme_loading = False,
         readme_error =
           Some ''Authentication error. Please try logging in with a GitHub token.''\<rparr>,
        \<lparr>env_token = None, github_token = Some ''fresh'', prompts = [],
         requests = [''https://api.github.com/repos/octocat/octocat/readme'']\<rparr>)"
  by code_simp

text \<open>
  When the user cancels the prompt of the handler and answers the prompt of the \<open>catch\<close>
  block, the README component does retry, and nothing caps the retries at one: here
  three consecutive 403 responses are met by three requests.
\<close>

lemma fetchReadme_retries_twice:
  "requests (snd (fetchReadme (\<lambda>html. html) ''octocat''
       [Inr forbidden, Inr forbidden, Inr forbidden, Inr forbidden :: unit fetch_outcome]
       (empty_readme_view, cancelling_browser)))
     = [''https://api.github.com/repos/octocat/octocat/readme'',
        ''https://api.github.com/repos/octocat/octocat/readme'',
        ''https://api.github.com/repos/octocat/octocat/readme'']"
  by code_simp


section \<open>Directory listings are normalised\<close>

lemma fetchFileContent_contents:
  "contents (fetchFileContent file file_server v) = contents v"
  by (simp add: fetchFileContent_def Let_def split: sum.splits)

text \<open>
  C1. On a successful response of the contents endpoint, \<open>fetchRepoContents\<close> (the
  service function and the callback of the viewer alike) yields the one-element sequence
  of the object when the payload is a single object, and the array itself, in its order,
  when the payload is an array.
\<close>

theorem fetchRepoContents_normalizes_shape:
  assumes "server (contents_url username repoName p) = Inr response"
    and "ok response"
    and "json response = Inr payload"
    and "vserver (viewer_contents_url username repoName (currentPath v) (currentBranch v))
           = Inr vresponse"
    and "ok vresponse"
    and "json vresponse = Inr vpayload"
  shows "(\<forall>item. payload = Single item \<longrightarrow>
            fst (fetchRepoContents username repoName p server st) = Inr [item])
       \<and> (\<forall>items. payload = Listing items \<longrightarrow>
            fst (fetchRepoContents username repoName p server st) = Inr items)
       \<and> (\<forall>item. vpayload = Single item \<longrightarrow>
            contents (viewer_fetchRepoContents username repoName vserver file_server v)
              = [item])
       \<and> (\<forall>items. vpayload = Listing items \<longrightarrow>
            contents (viewer_fetchRepoContents username repoName vserver file_server v)
              = items)"
proof -
  have a: "fst (fetchRepoContents username repoName p server st)
             = Inr (case payload of Listing items \<Rightarrow> items | Single item \<Rightarrow> [item])"
    using assms(1-3) by (simp add: fetchRepoContents_def Let_def)
  have b: "contents (viewer_fetchRepoContents username repoName vserver file_server v)
             = (case vpayload of Listing items \<Rightarrow> items | Single item \<Rightarrow> [item])"
    using assms(4-6)
    by (simp add: viewer_fetchRepoContents_def Let_def fetchFileContent_contents
        split: option.splits)
  show ?thesis using a b by simp
qed

theorem fetchRepoContents_normalizes_shape_witness:
  "fst (fetchRepoContents ''octocat'' ''demo'' ''LICENSE''
          (\<lambda>u. Inr (ok_response (Single license_item))) anonymous_browser)
     = Inr [license_item]
   \<and> fst (fetchRepoContents ''octocat'' ''demo'' []
          (\<lambda>u. Inr (ok_response (Listing [about_page, license_item]))) anonymous_browser)
     = Inr [about_page, license_item]
   \<and> contents (viewer_fetchRepoContents ''octocat'' ''demo''
          (\<lambda>u. Inr (ok_response (Single license_content))) (\<lambda>u. Inr not_found)
          initial_viewer)
     = [license_content]
   \<and> contents (viewer_fetchRepoContents ''octocat'' ''demo''
          (\<lambda>u. Inr (ok_response (Listing [license_content, license_content])))
          (\<lambda>u. Inr not_found) initial_viewer)
     = [license_content, license_content]"
  using fetchRepoContents_normalizes_shape
          [of "\<lambda>u. Inr (ok_response (Single license_item))" "''octocat''" "''demo''"
              "''LICENSE''" "ok_response (Single license_item)" "Single license_item"
              "\<lambda>u. Inr (ok_response (Single license_content))" initial_viewer
              "ok_response (Single license_content)" "Single license_content"
              anonymous_browser "\<lambda>u. Inr not_found"]
        fetchRepoContents_normalizes_shape
          [of "\<lambda>u. Inr (ok_response (Listing [about_page, license_item]))" "''octocat''"
              "''demo''" "[]" "ok_response (Listing [about_page, license_item])"
              "Listing [about_page, license_item]"
              "\<lambda>u. Inr (ok_response (Listing [license_content, license_content]))"
              initial_viewer "ok_response (Listing [license_content, license_content])"
              "Listing [license_content, license_content]"
              anonymous_browser "\<lambda>u. Inr not_found"]
  by (simp add: ok_response_def ok_def)

section \<open>Default branch\<close>

text \<open>
  C2, as the claim states it, fails on the empty sequence: the selection is guarded by
  \<open>data.length > 0\<close>, so nothing is raised and the current branch keeps its value.
\<close>

theorem fetchBranches_empty_is_no_failure:
  "fetchBranches_try ''octocat'' ''demo'' (\<lambda>u. Inr (ok_response [])) initial_viewer
     = Inr initial_viewer
   \<and> currentBranch (fetchBranches ''octocat'' ''demo'' (\<lambda>u. Inr (ok_response []))
                      initial_viewer) = ''main''"
  by (simp add: fetchBranches_def fetchBranches_try_def ok_response_def ok_def
      initial_viewer_def)

lemma find_Some_name:
  "find P xs = Some x \<Longrightarrow> P x \<and> x \<in> set xs"
  by (induction xs) (auto split: if_splits)

lemma find_None_name:
  "find P xs = None \<longleftrightarrow> (\<forall>x\<in>set xs. \<not> P x)"
  by (induction xs) auto

lemma defaultBranch_nonempty:
  "data \<noteq> [] \<Longrightarrow> defaultBranch data \<noteq> None"
  unfolding defaultBranch_def
  by (cases "find (\<lambda>b. branch_name b = ''main'') data";
      cases "find (\<lambda>b. branch_name b = ''master'') data"; cases data; simp)

text \<open>
  C2, amended. Of a sequence of branches the selection takes the first branch named
  \<open>main\<close>, wherever it stands; without one, the first branch named \<open>master\<close>; without
  either, the first element. \<open>fetchBranches\<close> makes the selection when the list is not
  empty and the current branch still is the initial \<open>main\<close>, and stores the name of the
  selected branch. On the empty sequence nothing fails: only the list of branches is
  stored, and the current branch is left as it is.
\<close>

theorem defaultBranch_selection:
  assumes "server (''https://api.github.com/repos/'' @ username @ ''/'' @ repoName
                     @ ''/branches'') = Inr response"
    and "ok response"
    and "json response = Inr data"
  shows "((\<exists>b\<in>set data. branch_name b = ''main'') \<longrightarrow>
            defaultBranch data = find (\<lambda>b. branch_name b = ''main'') data
            \<and> (\<exists>b\<in>set data. defaultBranch data = Some b \<and> branch_name b = ''main''))
       \<and> ((\<forall>b\<in>set data. branch_name b \<noteq> ''main'')
            \<and> (\<exists>b\<in>set data. branch_name b = ''master'') \<longrightarrow>
            defaultBranch data = find (\<lambda>b. branch_name b = ''master'') data
            \<and> (\<exists>b\<in>set data. defaultBranch data = Some b \<and> branch_name b = ''master''))
       \<and> ((\<forall>b\<in>set data. branch_name b \<noteq> ''main'' \<and> branch_name b \<noteq> ''master'')
            \<and> data \<noteq> [] \<longrightarrow>
            defaultBranch data = Some (hd data))
       \<and> (data \<noteq> [] \<and> currentBranch v = ''main'' \<longrightarrow>
            (case defaultBranch data of
               Some b \<Rightarrow>
                 fetchBranches_try username repoName server v
                   = Inr (v\<lparr>branches := data, currentBranch := branch_name b\<rparr>)
             | None \<Rightarrow> False))
       \<and> (data \<noteq> [] \<and> currentBranch v \<noteq> ''main'' \<longrightarrow>
            fetchBranches_try username repoName server v = Inr (v\<lparr>branches := data\<rparr>))
       \<and> (data = [] \<longrightarrow>
            fetchBranches_try username repoName server v = Inr (v\<lparr>branches := []\<rparr>))"
proof (intro conjI impI)
  assume m: "\<exists>b\<in>set data. branch_name b = ''main''"
  then obtain b where f: "find (\<lambda>b. branch_name b = ''main'') data = Some b"
    using find_None_name[of "\<lambda>b. branch_name b = ''main''" data] by (cases "find (\<lambda>b. branch_name b = ''main'') data") auto
  then show "defaultBranch data = find (\<lambda>b. branch_name b = ''main'') data"
    by (simp add: defaultBranch_def)
  show "\<exists>b\<in>set data. defaultBranch data = Some b \<and> branch_name b = ''main''"
    using f find_Some_name[OF f] by (auto simp: defaultBranch_def)
next
  assume h: "(\<forall>b\<in>set data. branch_name b \<noteq> ''main'')
            \<and> (\<exists>b\<in>set data. branch_name b = ''master'')"
  then have n: "find (\<lambda>b. branch_name b = ''main'') data = None"
    by (simp add: find_None_name)
  from h obtain b where f: "find (\<lambda>b. branch_name b = ''master'') data = Some b"
    using find_None_name[of "\<lambda>b. branch_name b = ''master''" data]
    by (cases "find (\<lambda>b. branch_name b = ''master'') data") auto
  show "defaultBranch data = find (\<lambda>b. branch_name b = ''master'') data"
    using n f by (simp add: defaultBranch_def)
  show "\<exists>b\<in>set data. defaultBranch data = Some b \<and> branch_name b = ''master''"
    using n f find_Some_name[OF f] by (auto simp: defaultBranch_def)
next
  assume h: "(\<forall>b\<in>set data. branch_name b \<noteq> ''main'' \<and> branch_name b \<noteq> ''master'')
            \<and> data \<noteq> []"
  then have "find (\<lambda>b. branch_name b = ''main'') data = None"
    and "find (\<lambda>b. branch_name b = ''master'') data = None"
    by (simp_all add: find_None_name)
  then show "defaultBranch data = Some (hd data)"
    using h by (cases data) (simp_all add: defaultBranch_def)
next
  assume h: "data \<noteq> [] \<and> currentBranch v = ''main''"
  then obtain b where d: "defaultBranch data = Some b"
    using defaultBranch_nonempty[of data] by auto
  then show "case defaultBranch data of
               Some b \<Rightarrow>
                 fetchBranches_try username repoName server v
                   = Inr (v\<lparr>branches := data, currentBranch := branch_name b\<rparr>)
             | None \<Rightarrow> False"
    using assms h by (simp add: fetchBranches_try_def Let_def)
next
  assume "data \<noteq> [] \<and> currentBranch v \<noteq> ''main''"
  then show "fetchBranches_try username repoName server v = Inr (v\<lparr>branches := data\<rparr>)"
    using assms by (simp add: fetchBranches_try_def Let_def)
next
  assume "data = []"
  then show "fetchBranches_try username repoName server v = Inr (v\<lparr>branches := []\<rparr>)"
    using assms by (simp add: fetchBranches_try_def Let_def)
qed

theorem defaultBranch_selection_witness:
  "defaultBranch [dev_branch, master_branch, main_branch] = Some main_branch
   \<and> defaultBranch [dev_branch, master_branch] = Some master_branch
   \<and> defaultBranch [dev_branch] = Some dev_branch
   \<and> fetchBranches_try ''octocat'' ''demo''
        (\<lambda>u. Inr (ok_response [dev_branch, master_branch, main_branch])) initial_viewer
       = Inr (initial_viewer\<lparr>branches := [dev_branch, master_branch, main_branch],
                              currentBranch := ''main''\<rparr>)
   \<and> fetchBranches_try ''octocat'' ''demo'' (\<lambda>u. Inr (ok_response [])) initial_viewer
       = Inr (initial_viewer\<lparr>branches := []\<rparr>)"
  using defaultBranch_selection
          [of "\<lambda>u. Inr (ok_response [dev_branch, master_branch, main_branch])" "''octocat''"
              "''demo''" "ok_response [dev_branch, master_branch, main_branch]"
              "[dev_branch, master_branch, main_branch]" initial_viewer]
        defaultBranch_selection
          [of "\<lambda>u. Inr (ok_response [dev_branch, master_branch])" "''octocat''"
              "''demo''" "ok_response [dev_branch, master_branch]"
              "[dev_branch, master_branch]" initial_viewer]
        defaultBranch_selection
          [of "\<lambda>u. Inr (ok_response [dev_branch])" "''octocat''"
              "''demo''" "ok_response [dev_branch]" "[dev_branch]" initial_viewer]
        defaultBranch_selection
          [of "\<lambda>u. Inr (ok_response [])" "''octocat''"
              "''demo''" "ok_response []" "[]" initial_viewer]
  by (simp add: ok_response_def ok_def dev_branch_def master_branch_def main_branch_def
      initial_viewer_def defaultBranch_def)


section \<open>Live-page probe\<close>

text \<open>
  C9, as the claim states it, fails: \<open>index.html\<close> is absent and the one root entry is a
  directory whose name ends in \<open>.html\<close>, yet the probe answers \<open>false\<close>, because only
  entries of type \<open>file\<close> are looked at.
\<close>

theorem checkRepoContents_ignores_directories:
  "endsWith (toLowerCase (name site_directory)) ''.html''
   \<and> checkRepoContents ''octocat'' ''demo''
        (\<lambda>u. if u = ''https://api.github.com/repos/octocat/demo/contents''
              then Inr (ok_response (Listing [site_directory]))
              else Inr not_found) = False"
  by code_simp

text \<open>
  C9, amended. The probe answers \<open>true\<close> in exactly two cases: the request for
  \<open>index.html\<close> at the root is answered with a 2xx status; or it is answered with another
  status, the request for the listing of the root is answered with a 2xx status and an
  array, and some entry of the array has type \<open>file\<close> and a name that ends in \<open>.html\<close>,
  compared case-insensitively. In every other case it answers \<open>false\<close>: when the request
  for \<open>index.html\<close> fails at the network level, when the request for the listing fails or
  is answered with a status that is not 2xx, and when the payload of the listing does not
  parse or is a single object.
\<close>

theorem checkRepoContents_live_page:
  "checkRepoContents username repoName server \<longleftrightarrow>
     (\<exists>rootResponse.
        server (contents_url username repoName ''index.html'') = Inr rootResponse
        \<and> (ok rootResponse
           \<or> (\<exists>contentsResponse entries.
                 server (GITHUB_API_BASE @ ''/repos/'' @ username @ ''/'' @ repoName
                           @ ''/contents'') = Inr contentsResponse
                 \<and> ok contentsResponse
                 \<and> json contentsResponse = Inr (Listing entries)
                 \<and> (\<exists>item\<in>set entries. type item = File
                        \<and> endsWith (toLowerCase (name item)) ''.html''))))"
proof (cases "server (contents_url username repoName ''index.html'')")
  case (Inl e)
  then show ?thesis by (simp add: checkRepoContents_def)
next
  case root: (Inr rootResponse)
  show ?thesis
  proof (cases "ok rootResponse")
    case True
    then show ?thesis using root by (simp add: checkRepoContents_def)
  next
    case nok: False
    show ?thesis
    proof (cases "server (GITHUB_API_BASE @ ''/repos/'' @ username @ ''/'' @ repoName
                            @ ''/contents'')")
      case (Inl e)
      then show ?thesis using root nok by (simp add: checkRepoContents_def)
    next
      case listing: (Inr contentsResponse)
      show ?thesis
      proof (cases "json contentsResponse")
        case (Inl e)
        then show ?thesis using root nok listing by (simp add: checkRepoContents_def)
      next
        case payload: (Inr p)
        show ?thesis
        proof (cases p)
          case (Listing entries)
          then show ?thesis
            using root nok listing payload
            by (simp add: checkRepoContents_def list_ex_iff)
        next
          case (Single item)
          then show ?thesis
            using root nok listing payload by (simp add: checkRepoContents_def)
        qed
      qed
    qed
  qed
qed

theorem checkRepoContents_live_page_witness:
  "checkRepoContents ''octocat'' ''demo'' (\<lambda>u. Inr (ok_response (Single about_page)))
   \<and> checkRepoContents ''octocat'' ''demo''
        (\<lambda>u. if u = ''https://api.github.com/repos/octocat/demo/contents''
              then Inr (ok_response (Listing [license_item, about_page]))
              else Inr not_found)
   \<and> \<not> checkRepoContents ''octocat'' ''demo''
        (\<lambda>u. if u = ''https://api.github.com/repos/octocat/demo/contents''
              then Inr (ok_response (Listing [license_item, site_directory]))
              else Inr not_found)
   \<and> \<not> checkRepoContents ''octocat'' ''demo'' (\<lambda>u. Inr not_found)
   \<and> \<not> checkRepoContents ''octocat'' ''demo'' (\<lambda>u. Inl (TypeError ''Failed to fetch''))
   \<and> \<not> checkRepoContents ''octocat'' ''demo''
        (\<lambda>u. if u = ''https://api.github.com/repos/octocat/demo/contents''
              then Inl (TypeError ''Failed to fetch'')
              else Inr not_found)
   \<and> \<not> checkRepoContents ''octocat'' ''demo''
        (\<lambda>u. if u = ''https://api.github.com/repos/octocat/demo/contents''
              then Inr unparsable
              else Inr not_found)
   \<and> \<not> checkRepoContents ''octocat'' ''demo''
        (\<lambda>u. if u = ''https://api.github.com/repos/octocat/demo/contents''
              then Inr (ok_response (Single about_page))
              else Inr not_found)"
proof -
  have html: "endsWith (toLowerCase (name about_page)) ''.html''"
    and lic: "\<not> endsWith (toLowerCase (name license_item)) ''.html''"
    by code_simp+
  have url: "GITHUB_API_BASE @ ''/repos/'' @ ''octocat'' @ ''/'' @ ''demo'' @ ''/contents''
               = ''https://api.github.com/repos/octocat/demo/contents''"
    and root: "contents_url ''octocat'' ''demo'' ''index.html''
               \<noteq> ''https://api.github.com/repos/octocat/demo/contents''"
    by (simp_all add: GITHUB_API_BASE_def contents_url_def)
  have okr: "ok (ok_response p)"
    and nf: "\<not> ok (not_found :: repo_content_item contents_payload response)"
    and js: "json (ok_response p) = Inr p"
    and un: "json (unparsable :: repo_content_item contents_payload response)
               = Inl (SyntaxError ''Unexpected token'')"
    for p :: "repo_content_item contents_payload"
    by (simp_all add: ok_def ok_response_def not_found_def unparsable_def)
  have ty: "type about_page = File" and td: "type site_directory \<noteq> File"
    and tl: "type license_item = File"
    by (simp_all add: about_page_def site_directory_def license_item_def)
  show ?thesis
    using checkRepoContents_live_page
            [of "''octocat''" "''demo''" "\<lambda>u. Inr (ok_response (Single about_page))"]
          checkRepoContents_live_page
            [of "''octocat''" "''demo''"
                "\<lambda>u. if u = ''https://api.github.com/repos/octocat/demo/contents''
                      then Inr (ok_response (Listing [license_item, about_page]))
                      else Inr not_found"]
          checkRepoContents_live_page
            [of "''octocat''" "''demo''"
                "\<lambda>u. if u = ''https://api.github.com/repos/octocat/demo/contents''
                      then Inr (ok_response (Listing [license_item, site_directory]))
                      else Inr not_found"]
          checkRepoContents_live_page
            [of "''octocat''" "''demo''" "\<lambda>u. Inr not_found"]
          checkRepoContents_live_page
            [of "''octocat''" "''demo''" "\<lambda>u. Inl (TypeError ''Failed to fetch'')"]
          checkRepoContents_live_page
            [of "''octocat''" "''demo''"
                "\<lambda>u. if u = ''https://api.github.com/repos/octocat/demo/contents''
                      then Inl (TypeError ''Failed to fetch'')
                      else Inr not_found"]
          checkRepoContents_live_page
            [of "''octocat''" "''demo''"
                "\<lambda>u. if u = ''https://api.github.com/repos/octocat/demo/contents''
                      then Inr unparsable
                      else Inr not_found"]
          checkRepoContents_live_page
            [of "''octocat''" "''demo''"
                "\<lambda>u. if u = ''https://api.github.com/repos/octocat/demo/contents''
                      then Inr (ok_response (Single about_page))
                      else Inr not_found"]
    using html lic url root okr nf js un ty td tl
    by simp
qed


section \<open>Package manifest probe\<close>

lemma check_branch_match:
  "manifest_homepage JSON_parse username repoName server b = Some h \<Longrightarrow>
   check_branch JSON_parse username repoName server b
     = Inr (Some \<lparr>hasPackageJson = True,
                  packageJsonHomepage = Some (filter (\<lambda>c. c \<noteq> CHR 0x60) (trim h))\<rparr>)"
  by (auto simp: manifest_homepage_def check_branch_def
      split: sum.splits if_splits json_value.splits option.splits)

lemma get_homepage_Some:
  "get_homepage m = Inr (Some v) \<Longrightarrow> \<exists>kvs. m = JObject kvs \<and> map_of kvs ''homepage'' = Some v"
  by (cases m) auto

lemma check_branch_return:
  assumes "check_branch JSON_parse username repoName server b = Inr (Some res)"
  shows "\<exists>h. manifest_homepage JSON_parse username repoName server b = Some h"
proof -
  from assms obtain response data decoded manifest h where
    s: "server (package_json_url username repoName (branch_name b)) = Inr response"
    and o: "ok response"
    and j: "json response = Inr data"
    and a: "atob (string_of_content (content data)) = Inr decoded"
    and p: "JSON_parse decoded = Inr manifest"
    and g: "get_homepage manifest = Inr (Some (JString h))"
    and t: "h \<noteq> []"
    by (auto simp: check_branch_def
        split: sum.splits if_splits option.splits json_value.splits)
  from g obtain kvs where m: "manifest = JObject kvs"
    and k: "map_of kvs ''homepage'' = Some (JString h)"
    using get_homepage_Some by blast
  show ?thesis
    using s o j a p m k t by (simp add: manifest_homepage_def)
qed

lemma check_branch_no_match:
  assumes "manifest_homepage JSON_parse username repoName server b = None"
  shows "check_branch JSON_parse username repoName server b = Inr None
   \<or> (\<exists>e. check_branch JSON_parse username repoName server b = Inl e)"
proof (cases "check_branch JSON_parse username repoName server b")
  case (Inl e)
  then show ?thesis by simp
next
  case (Inr r)
  show ?thesis
  proof (cases r)
    case None
    then show ?thesis using Inr by simp
  next
    case (Some res)
    then show ?thesis using Inr assms check_branch_return by fastforce
  qed
qed

lemma check_branches_skip:
  "\<forall>p\<in>set earlier. manifest_homepage JSON_parse username repoName server p = None \<Longrightarrow>
   check_branches JSON_parse username repoName server (earlier @ rest)
     = (fst (check_branches JSON_parse username repoName server rest),
        map (\<lambda>p. package_json_url username repoName (branch_name p)) earlier
          @ snd (check_branches JSON_parse username repoName server rest))"
proof (induction earlier)
  case Nil
  then show ?case by simp
next
  case (Cons p earlier)
  then have "manifest_homepage JSON_parse username repoName server p = None"
    by simp
  then have "check_branch JSON_parse username repoName server p = Inr None
     \<or> (\<exists>e. check_branch JSON_parse username repoName server p = Inl e)"
    by (rule check_branch_no_match)
  then show ?case using Cons by (auto simp: case_prod_unfold)
qed

text \<open>
  C6. The branches are probed in the listed order. The first branch whose manifest
  decodes and has a non-empty \<open>homepage\<close> string decides the result: that value, trimmed
  and without backticks, is returned, and no later branch is requested. Whatever goes
  wrong at an earlier branch (the request, the envelope, the base64 text, the JSON text,
  the manifest's shape) is swallowed and the loop goes on. When no branch has such a
  manifest, every branch has been requested and the result is not-found. The result is a
  value in all cases: the function has no exceptional outcome.
\<close>

theorem checkForPackageJson_first_homepage:
  assumes "branches_server (branches_url username repoName) = Inr branchesResponse"
    and "ok branchesResponse"
    and "json branchesResponse = Inr branch_list"
  shows "(branch_list = earlier @ b # later
            \<and> (\<forall>p\<in>set earlier. manifest_homepage JSON_parse username repoName server p = None)
            \<and> manifest_homepage JSON_parse username repoName server b = Some h \<longrightarrow>
          checkForPackageJson JSON_parse username repoName branches_server server
            = (\<lparr>hasPackageJson = True,
                packageJsonHomepage = Some (filter (\<lambda>c. c \<noteq> CHR 0x60) (trim h))\<rparr>,
               branches_url username repoName
                 # map (\<lambda>p. package_json_url username repoName (branch_name p))
                     (earlier @ [b])))
       \<and> ((\<forall>p\<in>set branch_list. manifest_homepage JSON_parse username repoName server p = None)
            \<longrightarrow>
          checkForPackageJson JSON_parse username repoName branches_server server
            = (\<lparr>hasPackageJson = False, packageJsonHomepage = None\<rparr>,
               branches_url username repoName
                 # map (\<lambda>p. package_json_url username repoName (branch_name p)) branch_list))"
proof (intro conjI impI)
  assume h: "branch_list = earlier @ b # later
            \<and> (\<forall>p\<in>set earlier. manifest_homepage JSON_parse username repoName server p = None)
            \<and> manifest_homepage JSON_parse username repoName server b = Some h"
  then have "check_branches JSON_parse username repoName server (b # later)
     = (\<lparr>hasPackageJson = True,
         packageJsonHomepage = Some (filter (\<lambda>c. c \<noteq> CHR 0x60) (trim h))\<rparr>,
        [package_json_url username repoName (branch_name b)])"
    by (simp add: check_branch_match)
  then have "check_branches JSON_parse username repoName server branch_list
     = (\<lparr>hasPackageJson = True,
         packageJsonHomepage = Some (filter (\<lambda>c. c \<noteq> CHR 0x60) (trim h))\<rparr>,
        map (\<lambda>p. package_json_url username repoName (branch_name p)) (earlier @ [b]))"
    using h check_branches_skip[of earlier JSON_parse username repoName server "b # later"]
    by simp
  then show "checkForPackageJson JSON_parse username repoName branches_server server
            = (\<lparr>hasPackageJson = True,
                packageJsonHomepage = Some (filter (\<lambda>c. c \<noteq> CHR 0x60) (trim h))\<rparr>,
               branches_url username repoName
                 # map (\<lambda>p. package_json_url username repoName (branch_name p))
                     (earlier @ [b]))"
    using assms by (simp add: checkForPackageJson_def)
next
  assume "\<forall>p\<in>set branch_list. manifest_homepage JSON_parse username repoName server p = None"
  then have "check_branches JSON_parse username repoName server branch_list
     = (\<lparr>hasPackageJson = False, packageJsonHomepage = None\<rparr>,
        map (\<lambda>p. package_json_url username repoName (branch_name p)) branch_list)"
    using check_branches_skip[of branch_list JSON_parse username repoName server "[]"]
    by simp
  then show "checkForPackageJson JSON_parse username repoName branches_server server
            = (\<lparr>hasPackageJson = False, packageJsonHomepage = None\<rparr>,
               branches_url username repoName
                 # map (\<lambda>p. package_json_url username repoName (branch_name p)) branch_list)"
    using assms by (simp add: checkForPackageJson_def)
qed

lemma example_manifest_decoded:
  "atob ''eyJob21lcGFnZSI6IiBgaHR0cHM6Ly9vY3RvY2F0LmdpdGh1Yi5pby9kZW1vYCAifQ==''
     = Inr example_manifest_text"
  by (simp add: atob_def strip_padding_def is_ascii_whitespace_def sextet_of_def Let_def
      char_of_eq_iff example_manifest_text_def)

lemma example_manifest_homepage:
  "manifest_homepage example_JSON_parse ''octocat'' ''demo'' example_manifest_server dev_branch
     = None"
  "manifest_homepage example_JSON_parse ''octocat'' ''demo'' example_manifest_server main_branch
     = Some ('' '' @ [CHR 0x60] @ ''https://octocat.github.io/demo'' @ [CHR 0x60] @ '' '')"
  by (simp_all add: manifest_homepage_def example_manifest_server_def package_json_url_def
      GITHUB_API_BASE_def dev_branch_def main_branch_def ok_response_def not_found_def ok_def
      package_json_content_def string_of_content_def example_manifest_decoded
      example_JSON_parse_def example_manifest_def)

lemma example_trimmed:
  "filter (\<lambda>c. c \<noteq> CHR 0x60)
     (trim ('' '' @ [CHR 0x60] @ ''https://octocat.github.io/demo'' @ [CHR 0x60] @ '' ''))
   = ''https://octocat.github.io/demo''"
  by (simp add: trim_def is_js_whitespace_def)

theorem checkForPackageJson_first_homepage_witness:
  "checkForPackageJson example_JSON_parse ''octocat'' ''demo''
       (\<lambda>u. Inr (ok_response [dev_branch, main_branch, master_branch]))
       example_manifest_server
     = (\<lparr>hasPackageJson = True,
         packageJsonHomepage = Some ''https://octocat.github.io/demo''\<rparr>,
        [''https://api.github.com/repos/octocat/demo/branches'',
         ''https://api.github.com/repos/octocat/demo/contents/package.json?ref=dev'',
         ''https://api.github.com/repos/octocat/demo/contents/package.json?ref=main''])
   \<and> checkForPackageJson example_JSON_parse ''octocat'' ''demo''
       (\<lambda>u. Inr (ok_response [dev_branch])) example_manifest_server
     = (\<lparr>hasPackageJson = False, packageJsonHomepage = None\<rparr>,
        [''https://api.github.com/repos/octocat/demo/branches'',
         ''https://api.github.com/repos/octocat/demo/contents/package.json?ref=dev''])"
  using checkForPackageJson_first_homepage
          [of "\<lambda>u. Inr (ok_response [dev_branch, main_branch, master_branch])" "''octocat''"
              "''demo''" "ok_response [dev_branch, main_branch, master_branch]"
              "[dev_branch, main_branch, master_branch]" "[dev_branch]" main_branch
              "[master_branch]" example_JSON_parse example_manifest_server
              "'' '' @ [CHR 0x60] @ ''https://octocat.github.io/demo'' @ [CHR 0x60] @ '' ''"]
        checkForPackageJson_first_homepage
          [of "\<lambda>u. Inr (ok_response [dev_branch])" "''octocat''"
              "''demo''" "ok_response [dev_branch]"
              "[dev_branch]" "[]" dev_branch "[]" example_JSON_parse example_manifest_server
              "[]"]
        example_manifest_homepage example_trimmed
  by (simp add: ok_response_def ok_def branches_url_def package_json_url_def
      GITHUB_API_BASE_def dev_branch_def main_branch_def)


section \<open>Base64 round trip\<close>

lemma sextet_of_base64_char:
  "i < 64 \<Longrightarrow> sextet_of (base64_char i) = Some i"
  by (auto simp: sextet_of_def base64_char_def Let_def)

lemma base64_char_not_whitespace:
  "\<not> is_ascii_whitespace (base64_char i)"
  by (auto simp: is_ascii_whitespace_def base64_char_def)

lemma base64_char_not_padding:
  "base64_char i \<noteq> CHR ''=''"
proof
  assume "base64_char i = CHR ''=''"
  then have "(of_char (base64_char i) :: nat) = 61" by simp
  then show False
    by (auto simp: base64_char_def split: if_splits)
qed

lemma div_by_less:
  fixes m :: nat
  shows "m < 256 \<Longrightarrow> m div 4 < 64" and "m < 256 \<Longrightarrow> m div 16 < 16"
    and "m < 256 \<Longrightarrow> m div 64 < 4"
  using less_mult_imp_div_less[of m 64 4] less_mult_imp_div_less[of m 16 16]
    less_mult_imp_div_less[of m 4 64]
  by simp_all

lemma pack_less:
  fixes a b :: nat
  shows "a < 4 \<Longrightarrow> b < 16 \<Longrightarrow> a * 16 + b < 64"
    and "b < 16 \<Longrightarrow> a < 4 \<Longrightarrow> b * 4 + a < 64"
    and "a < 4 \<Longrightarrow> a * 16 < 64" and "b < 16 \<Longrightarrow> b * 4 < 64"
  by linarith+

lemma sextets_of_less:
  "\<forall>s\<in>set (sextets_of bytes). s < 64"
proof (induction bytes rule: sextets_of.induct)
  case (1 x y z rest)
  have "(of_char x :: nat) div 4 < 64"
    "(of_char x :: nat) mod 4 * 16 + of_char y div 16 < 64"
    "(of_char y :: nat) mod 16 * 4 + of_char z div 64 < 64"
    by (simp_all add: div_by_less pack_less)
  then show ?case using 1 by simp
next
  case (2 x y)
  have "(of_char x :: nat) div 4 < 64"
    "(of_char x :: nat) mod 4 * 16 + of_char y div 16 < 64"
    "(of_char y :: nat) mod 16 * 4 < 64"
    by (simp_all add: div_by_less pack_less)
  then show ?case by simp
next
  case (3 x)
  have "(of_char x :: nat) div 4 < 64" "(of_char x :: nat) mod 4 * 16 < 64"
    by (simp_all add: div_by_less pack_less)
  then show ?case by simp
next
  case 4
  then show ?case by simp
qed

lemma length_sextets_of:
  "length (sextets_of bytes) mod 4 \<noteq> Suc 0"
  by (induction bytes rule: sextets_of.induct) simp_all

lemma padding_not_whitespace:
  "\<not> is_ascii_whitespace (CHR ''='')"
  by (simp add: is_ascii_whitespace_def)

lemma base64_encode_not_whitespace:
  "filter (\<lambda>c. \<not> is_ascii_whitespace c) (base64_encode bytes) = base64_encode bytes"
  by (induction bytes rule: base64_encode.induct)
     (simp_all add: base64_char_not_whitespace padding_not_whitespace)

lemma length_base64_encode:
  "length (base64_encode bytes) mod 4 = 0"
  by (induction bytes rule: base64_encode.induct) simp_all

lemma base64_encode_Nil:
  "base64_encode bytes = [] \<longleftrightarrow> bytes = []"
  by (cases bytes rule: base64_encode.cases) simp_all

lemma strip_padding_append:
  assumes "length p mod 4 = 0" and "length q mod 4 = 0" and "q \<noteq> []"
  shows "strip_padding (p @ q) = p @ strip_padding q"
proof -
  have "length q \<noteq> 0" using assms(3) by simp
  then have "length q \<ge> 4"
    using assms(2) by presburger
  then have b: "butlast q \<noteq> []"
    by (cases q) auto
  have l: "length (p @ q) mod 4 = 0"
    using assms(1,2) by (simp add: mod_add_eq[symmetric] add.commute mod_eq_0_iff_dvd)
  show ?thesis
    using assms(2,3) b l
    by (simp add: strip_padding_def Let_def butlast_append)
qed

lemma strip_padding_base64_encode:
  "strip_padding (base64_encode bytes) = map base64_char (sextets_of bytes)"
proof (induction bytes rule: base64_encode.induct)
  case (1 x y z rest)
  show ?case
  proof (cases "rest = []")
    case True
    then show ?thesis
      by (simp add: strip_padding_def base64_char_not_padding)
  next
    case False
    then have ne: "base64_encode rest \<noteq> []"
      by (simp add: base64_encode_Nil)
    define p where "p = [base64_char (of_char x div 4),
                         base64_char (of_char x mod 4 * 16 + of_char y div 16),
                         base64_char (of_char y mod 16 * 4 + of_char z div 64),
                         base64_char (of_char z mod 64)]"
    have e: "base64_encode (x # y # z # rest) = p @ base64_encode rest"
      by (simp add: p_def)
    have "strip_padding (p @ base64_encode rest) = p @ strip_padding (base64_encode rest)"
      by (rule strip_padding_append) (simp_all add: p_def length_base64_encode ne)
    then show ?thesis
      using 1 e by (simp add: p_def)
  qed
next
  case (2 x y)
  then show ?case
    by (simp add: strip_padding_def base64_char_not_padding)
next
  case (3 x)
  then show ?case
    by (simp add: strip_padding_def base64_char_not_padding)
next
  case 4
  then show ?case by (simp add: strip_padding_def)
qed

lemma those_sextets:
  "\<forall>s\<in>set ss. s < 64 \<Longrightarrow> those (map sextet_of (map base64_char ss)) = Some ss"
  by (induction ss) (simp_all add: sextet_of_base64_char)

lemma byte_of_sextets:
  fixes X Y Z :: nat
  assumes "X < 256" and "Y < 256" and "Z < 256"
  shows "X div 4 * 4 + (X mod 4 * 16 + Y div 16) div 16 = X"
    and "(X mod 4 * 16 + Y div 16) mod 16 * 16 + (Y mod 16 * 4 + Z div 64) div 4 = Y"
    and "(Y mod 16 * 4 + Z div 64) mod 4 * 64 + Z mod 64 = Z"
    and "X div 4 * 4 + (X mod 4 * 16) div 16 = X"
    and "(X mod 4 * 16 + Y div 16) mod 16 * 16 + (Y mod 16 * 4) div 4 = Y"
proof -
  have y: "Y div 16 < 16" and z: "Z div 64 < 4"
    using assms by (simp_all add: div_by_less)
  show "X div 4 * 4 + (X mod 4 * 16 + Y div 16) div 16 = X"
    using y by simp
  show "(X mod 4 * 16 + Y div 16) mod 16 * 16 + (Y mod 16 * 4 + Z div 64) div 4 = Y"
    using y z by simp
  show "(Y mod 16 * 4 + Z div 64) mod 4 * 64 + Z mod 64 = Z"
    using z by simp
  show "X div 4 * 4 + (X mod 4 * 16) div 16 = X"
    by simp
  show "(X mod 4 * 16 + Y div 16) mod 16 * 16 + (Y mod 16 * 4) div 4 = Y"
    using y by simp
qed

lemma decode_sextets_of:
  "decode_sextets (sextets_of bytes) = bytes"
proof (induction bytes rule: sextets_of.induct)
  case (1 x y z rest)
  have b: "(of_char x :: nat) < 256" "(of_char y :: nat) < 256" "(of_char z :: nat) < 256"
    by simp_all
  show ?case
    using 1 byte_of_sextets(1-3)[OF b] by simp
next
  case (2 x y)
  have b: "(of_char x :: nat) < 256" "(of_char y :: nat) < 256"
    by simp_all
  show ?case
    using byte_of_sextets(1,5)[OF b b(2)] by simp
next
  case (3 x)
  have b: "(of_char x :: nat) < 256"
    by simp
  show ?case
    using byte_of_sextets(4)[OF b b b] by simp
next
  case 4
  then show ?case by simp
qed

lemma atob_base64_encode:
  "atob (base64_encode bytes) = Inr bytes"
proof -
  have "those (map sextet_of (map base64_char (sextets_of bytes))) = Some (sextets_of bytes)"
    by (rule those_sextets) (rule sextets_of_less)
  then show ?thesis
    using length_sextets_of[of bytes]
    by (simp add: atob_def Let_def base64_encode_not_whitespace strip_padding_base64_encode
        decode_sextets_of del: map_map)
qed

lemma char_eq_char_of:
  "c = char_of (n :: nat) \<longleftrightarrow> take_bit 8 n = of_char c"
  using char_of_eq_iff[of n c] by auto

text \<open>
  C3. Let the content field hold the base64 encoding of a byte sequence, with newlines
  inserted anywhere. Then the decode step of \<open>fetchFileContent\<close> yields exactly the bytes:
  the newlines are removed before decoding and contribute nothing to the result. The
  same holds for the whole callback on a successful metadata response: the file content
  it stores is the byte sequence.
\<close>

theorem base64_round_trip:
  assumes "filter (\<lambda>ch. ch \<noteq> CHR 0x0A) encoded = base64_encode bytes"
    and "encoding data = Some ''base64''"
    and "content data = Some encoded"
    and "server (file_url file) = Inr response"
    and "ok response"
    and "json response = Inr data"
  shows "decode_file_data file data = Inr bytes
       \<and> fileContent (fetchFileContent file server v) = bytes
       \<and> selectedFile (fetchFileContent file server v) = Some file"
proof -
  have d: "decode_file_data file data = Inr bytes"
  proof (cases "encoded = []")
    case True
    then have "base64_encode bytes = []"
      using assms(1) by simp
    then have "bytes = []"
      by (simp add: base64_encode_Nil)
    then show ?thesis
      using True assms(2,3) by (simp add: decode_file_data_def)
  next
    case False
    then show ?thesis
      using assms(1-3) by (simp add: decode_file_data_def atob_base64_encode)
  qed
  then have "fetch_file_details file server = Inr bytes"
    using assms(4-6) by (simp add: fetch_file_details_def)
  then show ?thesis
    using d by (simp add: fetchFileContent_def Let_def)
qed

theorem base64_round_trip_witness:
  "decode_file_data example_file example_file_data = Inr example_bytes
   \<and> fileContent (fetchFileContent example_file (\<lambda>u. Inr (ok_response example_file_data))
                    initial_viewer) = example_bytes
   \<and> selectedFile (fetchFileContent example_file (\<lambda>u. Inr (ok_response example_file_data))
                    initial_viewer) = Some example_file"
proof -
  have "filter (\<lambda>ch. ch \<noteq> CHR 0x0A) example_encoded = base64_encode example_bytes"
    by (simp add: example_encoded_def example_bytes_def base64_char_def char_eq_char_of)
  then show ?thesis
    using base64_round_trip
            [of example_encoded example_bytes example_file_data
                "\<lambda>u. Inr (ok_response example_file_data)" example_file
                "ok_response example_file_data" initial_viewer]
    by (simp add: example_file_data_def ok_response_def ok_def)
qed


section \<open>Language detection\<close>

text \<open>The three examples of the specification.\<close>

lemma primaryLanguage_examples:
  "primaryLanguage [file_named ''a.py'', file_named ''b.py'', file_named ''c.js''] = ''Python''"
  "primaryLanguage [file_named ''a.xyz''] = []"
  "primaryLanguage [] = []"
  by code_simp+

text \<open>A tie goes to the label met first in the listing.\<close>

lemma primaryLanguage_tie:
  "primaryLanguage [file_named ''a.js'', file_named ''b.PY'', file_named ''c.py'',
                    file_named ''d.jsx'', file_named ''Makefile''] = ''JavaScript''"
  by code_simp

text \<open>
  C4 fails on a file whose suffix names a property that the table inherits from
  \<open>Object.prototype\<close>: \<open>constructor\<close> is no known suffix, yet \<open>languageMap['constructor']\<close>
  is the function \<open>Object\<close>, a truthy value, which is counted under the key it converts
  to. The result is that key, not the empty label.
\<close>

theorem detectProgrammingLanguages_inherited_property:
  "fst (detectProgrammingLanguages ''octocat'' ''demo''
          (\<lambda>u. Inr (ok_response (Listing [file_named ''app.constructor''])))
          anonymous_browser)
     = ''function Object() { [native code] }''"
  by code_simp

lemma detectProgrammingLanguages_proto:
  "fst (detectProgrammingLanguages ''octocat'' ''demo''
          (\<lambda>u. Inr (ok_response (Listing [file_named ''notes.__proto__''])))
          anonymous_browser)
     = ''[object Object]''"
  by code_simp

section \<open>Image references in markdown\<close>

text \<open>The two examples of the specification.\<close>

lemma processMarkdownContent_examples:
  "processMarkdownContent ''alice'' ''repo'' (viewer_on_branch ''main'') ''![x](img/a.png)''
     = ''![x](https://raw.githubusercontent.com/alice/repo/main/img/a.png)''"
  "processMarkdownContent ''alice'' ''repo'' (viewer_on_branch ''main'')
       ''![x](https://ext.com/a.png)''
     = ''![x](https://ext.com/a.png)''"
  by code_simp+

text \<open>
  C5 fails for a ref that holds a replacement pattern: the branch name is pasted into
  the replacement string of \<open>String.prototype.replace\<close>, where \<open>$1\<close> stands for the first
  capture. On the branch \<open>feature-$1\<close> the rewritten address names the branch
  \<open>feature-x\<close>.
\<close>

theorem processMarkdownContent_ref_with_pattern:
  "processMarkdownContent ''alice'' ''repo'' (viewer_on_branch ''feature-$1'')
       ''![x](img/a.png)''
     = ''![x](https://raw.githubusercontent.com/alice/repo/feature-x/img/a.png)''"
  by code_simp

text \<open>
  An image reference nested in the address of an absolute one is rewritten, so the
  absolute reference does not stay as it was.
\<close>

lemma processMarkdownContent_nested:
  "processMarkdownContent ''alice'' ''repo'' (viewer_on_branch ''main'')
       ''![x](http://a/![y](b)''
     = ''![x](http://a/![y](https://raw.githubusercontent.com/alice/repo/main/b)''"
  by code_simp

end
